theory Spec2Isabelle
  imports Main "HOL-Library.Word"
begin

section \<open>JavaScript values used by the relay\<close>

text \<open>
  Strings are lists of 8-bit characters; every character the relay inspects (hex digits,
  decimal digits, the newline separator) lies in that range. A thrown exception is a value
  carrying the optional \<open>code\<close> property and the \<open>message\<close> the handlers test.
\<close>

type_synonym byte = "8 word"

datatype exn = Exn (exn_code: "string option") (exn_message: string)

definition charCode :: "char \<Rightarrow> nat" where
  "charCode c = of_char c"

definition is_digit :: "char \<Rightarrow> bool" where
  "is_digit c = (48 \<le> charCode c \<and> charCode c \<le> 57)"

definition is_lower_hex :: "char \<Rightarrow> bool" where
  "is_lower_hex c = (is_digit c \<or> (97 \<le> charCode c \<and> charCode c \<le> 102))"

definition is_hex_char :: "char \<Rightarrow> bool" where
  "is_hex_char c = (is_lower_hex c \<or> (65 \<le> charCode c \<and> charCode c \<le> 70))"

text \<open>\<open>String.prototype.toLowerCase\<close> on the Latin-1 range.\<close>

definition to_lower_char :: "char \<Rightarrow> char" where
  "to_lower_char c =
     (let n = charCode c in
      if (65 \<le> n \<and> n \<le> 90) \<or> (192 \<le> n \<and> n \<le> 222 \<and> n \<noteq> 215)
      then char_of (n + 32) else c)"

definition toLowerCase :: "string \<Rightarrow> string" where
  "toLowerCase s = map to_lower_char s"

text \<open>\<open>String(n)\<close> for an integer \<open>n\<close> (below the magnitude where JavaScript switches to
  exponent notation): the base-10 numeral, with a minus sign for negatives.\<close>

fun string_of_nat :: "nat \<Rightarrow> string" where
  "string_of_nat n =
     (if n < 10 then [char_of (48 + n)]
      else string_of_nat (n div 10) @ [char_of (48 + n mod 10)])"

declare string_of_nat.simps [simp del]

definition String_of_int :: "int \<Rightarrow> string" where
  "String_of_int i =
     (if i < 0 then CHR ''-'' # string_of_nat (nat (- i)) else string_of_nat (nat i))"

text \<open>\<open>Array.prototype.join\<close> with a separator.\<close>

fun join :: "string \<Rightarrow> string list \<Rightarrow> string" where
  "join sep [] = []"
| "join sep [x] = x"
| "join sep (x # y # ys) = x @ sep @ join sep (y # ys)"

section \<open>security/signature.ts\<close>

record SignatureInput =
  httpMethod :: string
  path :: string
  clientId :: string
  timestamp :: string
  nonce :: string
  fileSha256 :: string
  fileSizeBytes :: int
  schemaVersion :: string

definition buildCanonicalString :: "SignatureInput \<Rightarrow> string" where
  "buildCanonicalString input =
     join [CHR 0x0A]
       [httpMethod input, path input, clientId input, timestamp input, nonce input,
        fileSha256 input, String_of_int (fileSizeBytes input), schemaVersion input]"

text \<open>
  \<open>hmacSha256Hex\<close> is a thin wrapper around the platform's HMAC-SHA256; the primitive is a
  parameter \<open>hmac\<close> of the model (secret, message to lowercase hex digest).
\<close>

definition hmacSha256Hex :: "(string \<Rightarrow> string \<Rightarrow> string) \<Rightarrow> string \<Rightarrow> string \<Rightarrow> string" where
  "hmacSha256Hex hmac secret canonicalString = hmac secret canonicalString"

text \<open>The test \<open>/^[0-9a-f]+$/i\<close>: one or more hex digits of either case, nothing else.\<close>

definition hex_regex :: "string \<Rightarrow> bool" where
  "hex_regex s = (s \<noteq> [] \<and> list_all is_hex_char s)"

definition hex_val :: "char \<Rightarrow> nat option" where
  "hex_val c =
     (let n = charCode c in
      if 48 \<le> n \<and> n \<le> 57 then Some (n - 48)
      else if 97 \<le> n \<and> n \<le> 102 then Some (n - 87)
      else if 65 \<le> n \<and> n \<le> 70 then Some (n - 55)
      else None)"

text \<open>\<open>Buffer.from(s, "hex")\<close>: decodes pairs of hex digits and stops at the first pair
  that is not two hex digits; a trailing single character is dropped.\<close>

fun buffer_from_hex :: "string \<Rightarrow> byte list" where
  "buffer_from_hex (a # b # rest) =
     (case hex_val a of
        None \<Rightarrow> []
      | Some hi \<Rightarrow>
          (case hex_val b of
             None \<Rightarrow> []
           | Some lo \<Rightarrow> of_nat (16 * hi + lo) # buffer_from_hex rest))"
| "buffer_from_hex [a] = []"
| "buffer_from_hex [] = []"

text \<open>\<open>crypto.timingSafeEqual\<close> throws a \<open>RangeError\<close> on buffers of different length.\<close>

definition timingSafeEqual :: "byte list \<Rightarrow> byte list \<Rightarrow> exn + bool" where
  "timingSafeEqual a b =
     (if length a \<noteq> length b
      then Inl (Exn (Some ''ERR_CRYPTO_TIMING_SAFE_EQUAL_LENGTH'')
                    ''Input buffers must have the same byte length'')
      else Inr (a = b))"

definition timingSafeEqualHex :: "string \<Rightarrow> string \<Rightarrow> exn + bool" where
  "timingSafeEqualHex expectedHex providedHex =
     (if \<not> hex_regex expectedHex \<or> \<not> hex_regex providedHex then Inr False
      else if length expectedHex \<noteq> length providedHex \<or> length expectedHex mod 2 \<noteq> 0
      then Inr False
      else
        let expected = buffer_from_hex expectedHex;
            provided = buffer_from_hex providedHex
        in if length expected \<noteq> length provided then Inr False
           else timingSafeEqual expected provided)"

definition verifySignature ::
  "(string \<Rightarrow> string \<Rightarrow> string) \<Rightarrow> string \<Rightarrow> string \<Rightarrow> string \<Rightarrow> exn + bool" where
  "verifySignature hmac secret canonicalString providedSignatureHex =
     (let expected = hmacSha256Hex hmac secret canonicalString
      in timingSafeEqualHex expected (toLowerCase providedSignatureHex))"

text \<open>What \<open>digest("hex")\<close> of a SHA-256 value looks like: 64 lowercase hex digits.\<close>

definition is_digest :: "string \<Rightarrow> bool" where
  "is_digest s = (length s = 64 \<and> list_all is_lower_hex s)"


section \<open>Platform and library functions taken as parameters\<close>

text \<open>
  The relay calls library code that is not part of the repository: zod's \<open>uuid()\<close> check,
  \<open>Date\<close> parsing, \<open>JSON.parse\<close>, \<open>Number(...)\<close> coercion, and the hash primitives of
  \<open>node:crypto\<close>. They are parameters of the model. \<open>Date_parse\<close> gives the epoch
  milliseconds, or \<open>None\<close> for an invalid date (\<open>NaN\<close>); \<open>Number_coerce\<close> gives the value
  of \<open>Number(v)\<close> when that is an integer and \<open>None\<close> otherwise.
\<close>

datatype json =
    JNull
  | JBool bool
  | JNumber int
  | JString string
  | JArray "json list"
  | JObject "(string \<times> json) list"

record lib =
  uuid_ok :: "string \<Rightarrow> bool"
  Date_parse :: "string \<Rightarrow> int option"
  JSON_parse :: "string \<Rightarrow> json option"
  Number_coerce :: "json \<Rightarrow> int option"
  hmac_sha256 :: "string \<Rightarrow> string \<Rightarrow> string"
  sha256_text :: "string \<Rightarrow> string"
  sha256_bytes :: "byte list \<Rightarrow> string"

definition sha256Hex :: "lib \<Rightarrow> byte list \<Rightarrow> string" where
  "sha256Hex L payload = sha256_bytes L payload"

definition hashInviteCode :: "lib \<Rightarrow> string \<Rightarrow> string" where
  "hashInviteCode L inviteCode = sha256_text L inviteCode"

text \<open>\<open>randomToken(prefix, bytes)\<close>: the hex rendering of the random bytes is supplied by
  the environment of the request.\<close>

definition randomToken :: "string \<Rightarrow> string \<Rightarrow> string" where
  "randomToken prefix random_hex = prefix @ random_hex"

section \<open>The durable store (migrations/001\_init.sql, db.ts)\<close>

text \<open>
  A table is the list of its rows; a primary key is enforced by the insert. Instants
  written by the relay itself (\<open>toISOString()\<close>) are kept as epoch milliseconds: the
  strings have fixed width for years 0000 to 9999, where SQLite's text comparison is the
  comparison of instants. An invite's \<open>expires_at\<close> is seeded from outside and stays text.
\<close>

datatype ApiErrorCode =
    INVITE_INVALID | INVITE_EXPIRED | INVITE_ALREADY_USED | RATE_LIMITED
  | AUTH_FAILED | NONCE_REPLAY | PAYLOAD_INVALID | FILE_TOO_LARGE | DISCORD_FORWARD_FAILED

record ClientRecord =
  client_id :: string
  client_secret :: string
  install_id :: "string option"
  active :: int
  client_created_at :: int
  revoked_at :: "int option"

record InviteCodeRecord =
  code_hash :: string
  max_uses :: int
  used_count :: int
  expires_at :: "string option"
  invite_created_at :: int
  created_by :: "string option"

record NonceRecord =
  nonce_client_id :: string
  nonce_value :: string
  seen_at :: int
  nonce_expires_at :: int

record AuditRecord =
  request_id :: string
  audit_client_id :: "string option"
  status :: string
  error_code :: "ApiErrorCode option"
  audit_ip :: string
  audit_created_at :: int

record Database =
  clients :: "ClientRecord list"
  invite_codes :: "InviteCodeRecord list"
  nonces :: "NonceRecord list"
  upload_audit :: "AuditRecord list"

text \<open>
  Every statement the handlers run can also fail for a reason of the store itself
  (locked, full, unreachable). The environment of a request says which statements do,
  and with which exception.
\<close>

datatype db_stmt =
    SelectInvite | UpdateInvite | InsertClient
  | SelectClient | SelectNonce | InsertNonce | DeleteExpiredNonces | InsertAudit

type_synonym faults = "(db_stmt \<times> exn) list"

definition fault_of :: "faults \<Rightarrow> db_stmt \<Rightarrow> exn option" where
  "fault_of flt st = map_of flt st"

definition constraint_failed :: "string \<Rightarrow> exn" where
  "constraint_failed what =
     Exn (Some ''SQLITE_CONSTRAINT_PRIMARYKEY'') (''UNIQUE constraint failed: '' @ what)"

definition select_invite :: "faults \<Rightarrow> string \<Rightarrow> Database \<Rightarrow> exn + InviteCodeRecord option" where
  "select_invite flt h db =
     (case fault_of flt SelectInvite of
        Some e \<Rightarrow> Inl e
      | None \<Rightarrow> Inr (find (\<lambda>r. code_hash r = h) (invite_codes db)))"

definition invite_open :: "string \<Rightarrow> InviteCodeRecord \<Rightarrow> bool" where
  "invite_open h r = (code_hash r = h \<and> used_count r < max_uses r)"

text \<open>The guarded \<open>UPDATE\<close>: the number of rows changed, and the store after it.\<close>

definition update_invite_use :: "faults \<Rightarrow> string \<Rightarrow> Database \<Rightarrow> exn + (nat \<times> Database)" where
  "update_invite_use flt h db =
     (case fault_of flt UpdateInvite of
        Some e \<Rightarrow> Inl e
      | None \<Rightarrow>
          Inr (length (filter (invite_open h) (invite_codes db)),
               db\<lparr>invite_codes :=
                    map (\<lambda>r. if invite_open h r then r\<lparr>used_count := used_count r + 1\<rparr> else r)
                        (invite_codes db)\<rparr>))"

definition insert_client :: "faults \<Rightarrow> ClientRecord \<Rightarrow> Database \<Rightarrow> exn + Database" where
  "insert_client flt row db =
     (case fault_of flt InsertClient of
        Some e \<Rightarrow> Inl e
      | None \<Rightarrow>
          if list_ex (\<lambda>r. client_id r = client_id row) (clients db)
          then Inl (constraint_failed ''clients.client_id'')
          else Inr (db\<lparr>clients := clients db @ [row]\<rparr>))"

definition select_client :: "faults \<Rightarrow> string \<Rightarrow> Database \<Rightarrow> exn + ClientRecord option" where
  "select_client flt cid db =
     (case fault_of flt SelectClient of
        Some e \<Rightarrow> Inl e
      | None \<Rightarrow> Inr (find (\<lambda>r. client_id r = cid) (clients db)))"

definition insert_audit :: "faults \<Rightarrow> AuditRecord \<Rightarrow> Database \<Rightarrow> exn + Database" where
  "insert_audit flt row db =
     (case fault_of flt InsertAudit of
        Some e \<Rightarrow> Inl e
      | None \<Rightarrow>
          if list_ex (\<lambda>r. request_id r = request_id row) (upload_audit db)
          then Inl (constraint_failed ''upload_audit.request_id'')
          else Inr (db\<lparr>upload_audit := upload_audit db @ [row]\<rparr>))"

text \<open>\<open>db.transaction(fn)()\<close>: the body's writes are kept when it returns and rolled back
  when it throws; the exception is thrown on.\<close>

definition transaction :: "(Database \<Rightarrow> exn + Database) \<Rightarrow> Database \<Rightarrow> (exn + unit) \<times> Database" where
  "transaction body db =
     (case body db of
        Inl e \<Rightarrow> (Inl e, db)
      | Inr db' \<Rightarrow> (Inr (), db'))"

section \<open>security/nonces.ts\<close>

definition isTimestampWithinSkew :: "int \<Rightarrow> int \<Rightarrow> int \<Rightarrow> bool" where
  "isTimestampWithinSkew timestampSeconds nowSeconds maxClockSkewSeconds =
     (\<bar>nowSeconds - timestampSeconds\<bar> \<le> maxClockSkewSeconds)"

definition nonce_key :: "string \<Rightarrow> string \<Rightarrow> NonceRecord \<Rightarrow> bool" where
  "nonce_key cid n r = (nonce_client_id r = cid \<and> nonce_value r = n)"

definition hasSeenNonce :: "faults \<Rightarrow> Database \<Rightarrow> string \<Rightarrow> string \<Rightarrow> exn + bool" where
  "hasSeenNonce flt db cid n =
     (case fault_of flt SelectNonce of
        Some e \<Rightarrow> Inl e
      | None \<Rightarrow> Inr (find (nonce_key cid n) (nonces db) \<noteq> None))"

definition persistNonce :: "faults \<Rightarrow> Database \<Rightarrow> string \<Rightarrow> string \<Rightarrow> int \<Rightarrow> int \<Rightarrow> exn + Database" where
  "persistNonce flt db cid n seenAtIso expiresAtIso =
     (case fault_of flt InsertNonce of
        Some e \<Rightarrow> Inl e
      | None \<Rightarrow>
          if list_ex (nonce_key cid n) (nonces db)
          then Inl (constraint_failed ''nonces.client_id, nonces.nonce'')
          else Inr (db\<lparr>nonces := nonces db @
                 [\<lparr>nonce_client_id = cid, nonce_value = n, seen_at = seenAtIso,
                   nonce_expires_at = expiresAtIso\<rparr>]\<rparr>))"

definition cleanupExpiredNonces :: "faults \<Rightarrow> Database \<Rightarrow> int \<Rightarrow> exn + (nat \<times> Database)" where
  "cleanupExpiredNonces flt db nowIso =
     (case fault_of flt DeleteExpiredNonces of
        Some e \<Rightarrow> Inl e
      | None \<Rightarrow>
          Inr (length (filter (\<lambda>r. nonce_expires_at r \<le> nowIso) (nonces db)),
               db\<lparr>nonces := filter (\<lambda>r. \<not> nonce_expires_at r \<le> nowIso) (nonces db)\<rparr>))"

section \<open>HTTP replies\<close>

text \<open>A handler either sends a reply (status code and body) or lets an exception escape,
  which the framework turns into a failed request.\<close>

datatype api_body =
    ApiError ApiErrorCode "string option"
  | RedeemSuccess string string string
  | UploadSuccess string string string

datatype reply = Reply nat api_body | Uncaught exn

section \<open>routes/redeem.ts\<close>

record RedeemBody =
  inviteCode :: string
  installId :: string
  modVersion :: string

text \<open>\<open>RedeemBodySchema.safeParse\<close>: the body must be an object whose three keys hold
  strings, \<open>inviteCode\<close> and \<open>modVersion\<close> non-empty and \<open>installId\<close> a UUID.\<close>

definition RedeemBodySchema :: "lib \<Rightarrow> json option \<Rightarrow> RedeemBody option" where
  "RedeemBodySchema L body =
     (case body of
        Some (JObject kvs) \<Rightarrow>
          (case (map_of kvs ''inviteCode'', map_of kvs ''installId'', map_of kvs ''modVersion'') of
             (Some (JString ic), Some (JString iid), Some (JString mv)) \<Rightarrow>
               if ic \<noteq> [] \<and> uuid_ok L iid \<and> mv \<noteq> []
               then Some \<lparr>inviteCode = ic, installId = iid, modVersion = mv\<rparr>
               else None
           | _ \<Rightarrow> None)
      | _ \<Rightarrow> None)"

record RedeemEnv =
  redeem_now :: int
  client_random_hex :: string
  secret_random_hex :: string
  redeem_faults :: faults

text \<open>What the transaction closure captures once the initial checks have passed.\<close>

record RedeemTicket =
  t_codeHash :: string
  t_clientId :: string
  t_clientSecret :: string
  t_installId :: string
  t_nowIso :: int

text \<open>\<open>invite.expires_at && new Date(invite.expires_at).getTime() <= now.getTime()\<close>:
  \<open>null\<close> and the empty string are falsy, and a comparison with \<open>NaN\<close> is false.\<close>

definition invite_expired :: "lib \<Rightarrow> InviteCodeRecord \<Rightarrow> int \<Rightarrow> bool" where
  "invite_expired L invite now =
     (case expires_at invite of
        None \<Rightarrow> False
      | Some s \<Rightarrow>
          s \<noteq> [] \<and> (case Date_parse L s of None \<Rightarrow> False | Some t \<Rightarrow> t \<le> now))"

text \<open>Lines 43 to 76 of the handler: validation, lookup and the two checks on the row read.\<close>

definition redeem_check :: "lib \<Rightarrow> RedeemEnv \<Rightarrow> json option \<Rightarrow> Database \<Rightarrow> reply + RedeemTicket" where
  "redeem_check L env body db =
     (case RedeemBodySchema L body of
        None \<Rightarrow> Inl (Reply 400 (ApiError INVITE_INVALID None))
      | Some parsedBody \<Rightarrow>
          let now = redeem_now env;
              codeHash = hashInviteCode L (inviteCode parsedBody)
          in (case select_invite (redeem_faults env) codeHash db of
                Inl e \<Rightarrow> Inl (Uncaught e)
              | Inr None \<Rightarrow> Inl (Reply 400 (ApiError INVITE_INVALID None))
              | Inr (Some invite) \<Rightarrow>
                  if invite_expired L invite now
                  then Inl (Reply 410 (ApiError INVITE_EXPIRED None))
                  else if used_count invite \<ge> max_uses invite
                  then Inl (Reply 409 (ApiError INVITE_ALREADY_USED None))
                  else Inr \<lparr>t_codeHash = codeHash,
                            t_clientId = randomToken ''relay-client-'' (client_random_hex env),
                            t_clientSecret = randomToken ''relay-secret-'' (secret_random_hex env),
                            t_installId = installId parsedBody,
                            t_nowIso = now\<rparr>))"

text \<open>The body of the transaction (lines 78 to 102).\<close>

definition redeem_tx :: "faults \<Rightarrow> RedeemTicket \<Rightarrow> Database \<Rightarrow> exn + Database" where
  "redeem_tx flt t db =
     (case update_invite_use flt (t_codeHash t) db of
        Inl e \<Rightarrow> Inl e
      | Inr (changes, db1) \<Rightarrow>
          if changes \<noteq> 1 then Inl (Exn None ''INVITE_ALREADY_USED'')
          else insert_client flt
                 \<lparr>client_id = t_clientId t, client_secret = t_clientSecret t,
                  install_id = Some (t_installId t), active = 1,
                  client_created_at = t_nowIso t, revoked_at = None\<rparr> db1)"

text \<open>Lines 104 to 121: run the transaction, map its sentinel exception, reply.\<close>

definition redeem_commit :: "RedeemEnv \<Rightarrow> RedeemTicket \<Rightarrow> Database \<Rightarrow> reply \<times> Database" where
  "redeem_commit env t db =
     (case transaction (redeem_tx (redeem_faults env) t) db of
        (Inl e, db') \<Rightarrow>
          if exn_message e = ''INVITE_ALREADY_USED''
          then (Reply 409 (ApiError INVITE_ALREADY_USED None), db')
          else (Uncaught e, db')
      | (Inr u, db') \<Rightarrow>
          (Reply 200 (RedeemSuccess (t_clientId t) (t_clientSecret t) ''v1''), db'))"

definition redeem_handler :: "lib \<Rightarrow> RedeemEnv \<Rightarrow> json option \<Rightarrow> Database \<Rightarrow> reply \<times> Database" where
  "redeem_handler L env body db =
     (case redeem_check L env body db of
        Inl r \<Rightarrow> (r, db)
      | Inr t \<Rightarrow> redeem_commit env t db)"

subsection \<open>Redemptions sharing the store\<close>

text \<open>
  The store serialises statements and transactions, so a redemption running beside
  others takes two atomic steps: the read with its checks, and the transaction. A
  schedule names, step by step, which request moves next.
\<close>

datatype redeem_session =
    Received RedeemEnv "json option"
  | Checked RedeemEnv RedeemTicket
  | Replied reply

definition redeem_step :: "lib \<Rightarrow> Database \<Rightarrow> redeem_session \<Rightarrow> Database \<times> redeem_session" where
  "redeem_step L db s =
     (case s of
        Received env body \<Rightarrow>
          (case redeem_check L env body db of
             Inl r \<Rightarrow> (db, Replied r)
           | Inr t \<Rightarrow> (db, Checked env t))
      | Checked env t \<Rightarrow>
          (case redeem_commit env t db of (r, db') \<Rightarrow> (db', Replied r))
      | Replied r \<Rightarrow> (db, Replied r))"

fun run_redeems :: "lib \<Rightarrow> nat list \<Rightarrow> Database \<times> redeem_session list \<Rightarrow> Database \<times> redeem_session list" where
  "run_redeems L [] st = st"
| "run_redeems L (i # sched) (db, ss) =
     (if i < length ss
      then (case redeem_step L db (ss ! i) of
              (db', s') \<Rightarrow> run_redeems L sched (db', ss[i := s']))
      else run_redeems L sched (db, ss))"

definition is_success :: "redeem_session \<Rightarrow> bool" where
  "is_success s = (case s of Replied (Reply code (RedeemSuccess a b c)) \<Rightarrow> True | _ \<Rightarrow> False)"

definition is_already_used :: "redeem_session \<Rightarrow> bool" where
  "is_already_used s = (s = Replied (Reply 409 (ApiError INVITE_ALREADY_USED None)))"

definition is_replied :: "redeem_session \<Rightarrow> bool" where
  "is_replied s = (case s of Replied r \<Rightarrow> True | _ \<Rightarrow> False)"

definition total_uses :: "Database \<Rightarrow> int" where
  "total_uses db = sum_list (map used_count (invite_codes db))"

definition successes :: "redeem_session list \<Rightarrow> nat" where
  "successes ss = length (filter is_success ss)"

text \<open>
  A request that takes part in a race for the invite with hash \<open>h\<close>, whose row is \<open>inv0\<close>
  in the store \<open>db0\<close> the race starts from: its body is valid and names that invite, the
  store does not fail under it, the invite has not expired at its time, and the client id
  drawn for it is not taken.
\<close>

definition racing_request ::
  "lib \<Rightarrow> string \<Rightarrow> InviteCodeRecord \<Rightarrow> Database \<Rightarrow> RedeemEnv \<times> json option \<Rightarrow> bool" where
  "racing_request L h inv0 db0 q =
     (case q of (e, body) \<Rightarrow>
        (case RedeemBodySchema L body of
           None \<Rightarrow> False
         | Some b \<Rightarrow> hashInviteCode L (inviteCode b) = h)
        \<and> list_all (\<lambda>st. fault_of (redeem_faults e) st = None) [SelectInvite, UpdateInvite, InsertClient]
        \<and> \<not> invite_expired L inv0 (redeem_now e)
        \<and> \<not> list_ex (\<lambda>r. client_id r = randomToken ''relay-client-'' (client_random_hex e))
              (clients db0))"

text \<open>Where such a request can be while the race runs.\<close>

definition session_ok :: "string \<Rightarrow> RedeemEnv \<times> json option \<Rightarrow> redeem_session \<Rightarrow> bool" where
  "session_ok h q s =
     (case q of (e, body) \<Rightarrow>
        s = Received e body
        \<or> (case s of
              Checked e' t \<Rightarrow>
                e' = e \<and> t_codeHash t = h
                \<and> t_clientId t = randomToken ''relay-client-'' (client_random_hex e)
            | _ \<Rightarrow> False)
        \<or> is_success s \<or> is_already_used s)"

text \<open>The state of a race for a single-use invite: the row's counter \<open>u\<close> is 0 or 1 and
  equals the number of successful replies; nobody has been turned away while it was 0;
  and no credential has been added while it was 0.\<close>

definition race_inv ::
  "string \<Rightarrow> InviteCodeRecord \<Rightarrow> Database \<Rightarrow> (RedeemEnv \<times> json option) list
     \<Rightarrow> Database \<Rightarrow> redeem_session list \<Rightarrow> int \<Rightarrow> bool" where
  "race_inv h inv0 db0 reqs db ss u =
     ((u = 0 \<or> u = 1)
      \<and> filter (\<lambda>r. code_hash r = h) (invite_codes db) = [inv0\<lparr>used_count := u\<rparr>]
      \<and> (u = 0 \<longrightarrow> clients db = clients db0)
      \<and> list_all2 (session_ok h) reqs ss
      \<and> successes ss = nat u
      \<and> (list_ex is_already_used ss \<longrightarrow> u = 1))"

text \<open>How a row of the invite ledger may have changed: only its counter, which has not
  gone down and has not passed \<open>max_uses\<close> if it was within it before.\<close>

definition invite_progress :: "InviteCodeRecord \<Rightarrow> InviteCodeRecord \<Rightarrow> bool" where
  "invite_progress r r' =
     (r' = r\<lparr>used_count := used_count r'\<rparr> \<and> used_count r \<le> used_count r'
      \<and> (used_count r \<le> max_uses r \<longrightarrow> used_count r' \<le> max_uses r))"

section \<open>routes/upload.ts\<close>

record AppConfig =
  maxUploadBytes :: int
  maxClockSkewSeconds :: int
  nonceTtlSeconds :: int
  discordWebhookUrl :: string

text \<open>The tests \<open>/^\d+$/\<close> and \<open>/^[a-fA-F0-9]{64}$/\<close>.\<close>

definition digits_regex :: "string \<Rightarrow> bool" where
  "digits_regex s = (s \<noteq> [] \<and> list_all is_digit s)"

definition hex64_regex :: "string \<Rightarrow> bool" where
  "hex64_regex s = (length s = 64 \<and> list_all is_hex_char s)"

text \<open>\<open>Number(s)\<close> for a string of decimal digits.\<close>

definition nat_of_digits :: "string \<Rightarrow> nat" where
  "nat_of_digits s = foldl (\<lambda>acc c. 10 * acc + (charCode c - 48)) 0 s"

record UploadHeaders =
  h_client_id :: string
  h_timestamp :: string
  h_nonce :: string
  h_signature :: string
  h_signature_version :: string

definition UploadHeadersSchema :: "lib \<Rightarrow> (string \<rightharpoonup> string) \<Rightarrow> UploadHeaders option" where
  "UploadHeadersSchema L hs =
     (case (hs ''x-scamscreener-client-id'', hs ''x-scamscreener-timestamp'',
            hs ''x-scamscreener-nonce'', hs ''x-scamscreener-signature'',
            hs ''x-scamscreener-signature-version'') of
        (Some cid, Some ts, Some n, Some sg, Some ver) \<Rightarrow>
          if cid \<noteq> [] \<and> digits_regex ts \<and> uuid_ok L n \<and> hex64_regex sg \<and> ver = ''v1''
          then Some \<lparr>h_client_id = cid, h_timestamp = ts, h_nonce = n, h_signature = sg,
                     h_signature_version = ver\<rparr>
          else None
      | _ \<Rightarrow> None)"

record UploadMetadata =
  md_schemaVersion :: string
  md_modVersion :: string
  md_aiModelVersion :: string
  md_playerName :: string
  md_playerUuid :: string
  md_clientTimestamp :: string
  md_fileSha256 :: string
  md_fileSizeBytes :: int

definition z_string_min1 :: "json option \<Rightarrow> string option" where
  "z_string_min1 v =
     (case v of Some (JString s) \<Rightarrow> if s \<noteq> [] then Some s else None | _ \<Rightarrow> None)"

definition z_literal_1 :: "json option \<Rightarrow> string option" where
  "z_literal_1 v =
     (case v of Some (JString s) \<Rightarrow> if s = ''1'' then Some s else None | _ \<Rightarrow> None)"

definition z_sha256 :: "json option \<Rightarrow> string option" where
  "z_sha256 v =
     (case v of
        Some (JString s) \<Rightarrow> if hex64_regex s then Some (toLowerCase s) else None
      | _ \<Rightarrow> None)"

definition z_coerce_positive_int :: "lib \<Rightarrow> json option \<Rightarrow> int option" where
  "z_coerce_positive_int L v =
     (case v of
        None \<Rightarrow> None
      | Some j \<Rightarrow>
          (case Number_coerce L j of
             None \<Rightarrow> None
           | Some n \<Rightarrow> if n > 0 then Some n else None))"

definition UploadMetadataSchema :: "lib \<Rightarrow> json \<Rightarrow> UploadMetadata option" where
  "UploadMetadataSchema L v =
     (case v of
        JObject kvs \<Rightarrow>
          (case (z_literal_1 (map_of kvs ''schemaVersion''),
                 z_string_min1 (map_of kvs ''modVersion''),
                 z_string_min1 (map_of kvs ''aiModelVersion''),
                 z_string_min1 (map_of kvs ''playerName''),
                 z_string_min1 (map_of kvs ''playerUuid''),
                 z_string_min1 (map_of kvs ''clientTimestamp''),
                 z_sha256 (map_of kvs ''fileSha256''),
                 z_coerce_positive_int L (map_of kvs ''fileSizeBytes'')) of
             (Some sv, Some mv, Some av, Some pn, Some pu, Some ct, Some fh, Some fs) \<Rightarrow>
               Some \<lparr>md_schemaVersion = sv, md_modVersion = mv, md_aiModelVersion = av,
                     md_playerName = pn, md_playerUuid = pu, md_clientTimestamp = ct,
                     md_fileSha256 = fh, md_fileSizeBytes = fs\<rparr>
           | _ \<Rightarrow> None)
      | _ \<Rightarrow> None)"

text \<open>
  What the multipart iterator yields: a field, a file (its field name, its chunks, and
  the error its stream ends with, if any), or an error thrown by the iterator itself.
\<close>

datatype part =
    FieldPart string string
  | FilePart string "byte list list" "exn option"
  | IteratorThrows exn

record ParsedUpload =
  metadata :: UploadMetadata
  csvBuffer :: "byte list"
  verifiedFileSha256 :: string

fun read_chunks :: "int \<Rightarrow> byte list list \<Rightarrow> nat \<Rightarrow> byte list list \<Rightarrow> exn + (nat \<times> byte list list)" where
  "read_chunks maxBytes [] csvBytes csvChunks = Inr (csvBytes, csvChunks)"
| "read_chunks maxBytes (chunk # rest) csvBytes csvChunks =
     (let csvBytes' = csvBytes + length chunk
      in if int csvBytes' > maxBytes then Inl (Exn None ''FILE_TOO_LARGE'')
         else read_chunks maxBytes rest csvBytes' (csvChunks @ [chunk]))"

fun read_parts ::
  "int \<Rightarrow> part list \<Rightarrow> string option \<Rightarrow> byte list option \<Rightarrow> nat \<Rightarrow> byte list list
     \<Rightarrow> exn + (string option \<times> byte list option)" where
  "read_parts maxBytes [] metadataRaw csvBuf csvBytes csvChunks = Inr (metadataRaw, csvBuf)"
| "read_parts maxBytes (FieldPart fieldname v # ps) metadataRaw csvBuf csvBytes csvChunks =
     read_parts maxBytes ps (if fieldname = ''metadata'' then Some v else metadataRaw)
       csvBuf csvBytes csvChunks"
| "read_parts maxBytes (FilePart fieldname chunks err # ps) metadataRaw csvBuf csvBytes csvChunks =
     (if fieldname \<noteq> ''training_file''
      then (case err of
              Some e \<Rightarrow> Inl e
            | None \<Rightarrow> read_parts maxBytes ps metadataRaw csvBuf csvBytes csvChunks)
      else (case read_chunks maxBytes chunks csvBytes csvChunks of
              Inl e \<Rightarrow> Inl e
            | Inr (csvBytes', csvChunks') \<Rightarrow>
                (case err of
                   Some e \<Rightarrow> Inl e
                 | None \<Rightarrow>
                     read_parts maxBytes ps metadataRaw (Some (concat csvChunks'))
                       csvBytes' csvChunks')))"
| "read_parts maxBytes (IteratorThrows e # ps) metadataRaw csvBuf csvBytes csvChunks = Inl e"

definition readMultipartPayload :: "lib \<Rightarrow> part list \<Rightarrow> int \<Rightarrow> exn + ParsedUpload" where
  "readMultipartPayload L ps maxBytes =
     (case read_parts maxBytes ps None None 0 [] of
        Inl e \<Rightarrow> Inl e
      | Inr (metadataRaw, csvBuf) \<Rightarrow>
          (case (metadataRaw, csvBuf) of
             (Some raw, Some buf) \<Rightarrow>
               if raw = [] then Inl (Exn None ''PAYLOAD_INVALID'')
               else
                 (case JSON_parse L raw of
                    None \<Rightarrow> Inl (Exn None ''PAYLOAD_INVALID'')
                  | Some parsedMetadataJson \<Rightarrow>
                      (case UploadMetadataSchema L parsedMetadataJson of
                         None \<Rightarrow> Inl (Exn None ''PAYLOAD_INVALID'')
                       | Some md \<Rightarrow>
                           if int (length buf) > maxBytes then Inl (Exn None ''FILE_TOO_LARGE'')
                           else if md_fileSizeBytes md \<noteq> int (length buf)
                           then Inl (Exn None ''PAYLOAD_INVALID'')
                           else
                             let verified = sha256Hex L buf
                             in if verified \<noteq> md_fileSha256 md
                                then Inl (Exn None ''PAYLOAD_INVALID'')
                                else Inr \<lparr>metadata = md, csvBuffer = buf,
                                          verifiedFileSha256 = verified\<rparr>))
           | _ \<Rightarrow> Inl (Exn None ''PAYLOAD_INVALID'')))"

text \<open>
  What one upload attempt takes from outside the store: the random request id, the four
  readings of the clock, the outcome of the forwarder when it is called, and the faults
  of the store.
\<close>

record UploadEnv =
  request_uuid :: string
  clock_skew_check :: int
  clock_commit :: int
  clock_cleanup :: int
  clock_audit :: int
  forwarder_result :: "exn + string option"
  upload_faults :: faults

record UploadRequest =
  req_headers :: "string \<rightharpoonup> string"
  req_ip :: string
  req_isMultipart :: bool
  req_parts :: "part list"

record ForwardUploadInput =
  fw_webhookUrl :: string
  fw_requestId :: string
  fw_metadata :: UploadMetadata
  fw_csvData :: "byte list"
  fw_verifiedFileSha256 :: string

definition writeAuditRow ::
  "UploadEnv \<Rightarrow> Database \<Rightarrow> string \<Rightarrow> string option \<Rightarrow> string \<Rightarrow> string
     \<Rightarrow> ApiErrorCode option \<Rightarrow> exn + Database" where
  "writeAuditRow env db requestId cid st ip errorCode =
     insert_audit (upload_faults env)
       \<lparr>request_id = requestId, audit_client_id = cid, status = st, error_code = errorCode,
        audit_ip = ip, audit_created_at = clock_audit env\<rparr> db"

definition sendError ::
  "UploadEnv \<Rightarrow> Database \<Rightarrow> string \<Rightarrow> string \<Rightarrow> nat \<Rightarrow> ApiErrorCode \<Rightarrow> string option
     \<Rightarrow> reply \<times> Database" where
  "sendError env db requestId ip statusCode errorCode cid =
     (case writeAuditRow env db requestId cid ''REJECTED'' ip (Some errorCode) of
        Inl e \<Rightarrow> (Uncaught e, db)
      | Inr db' \<Rightarrow> (Reply statusCode (ApiError errorCode (Some requestId)), db'))"

definition requestId_of :: "UploadEnv \<Rightarrow> string" where
  "requestId_of env = ''req-'' @ request_uuid env"

text \<open>Lines 199 to 284: everything before the handler first waits (for the body).\<close>

definition upload_pre ::
  "lib \<Rightarrow> AppConfig \<Rightarrow> UploadEnv \<Rightarrow> UploadRequest \<Rightarrow> Database
     \<Rightarrow> (reply \<times> Database) + (UploadHeaders \<times> ClientRecord)" where
  "upload_pre L cfg env req db =
     (let requestId = requestId_of env; ip = req_ip req
      in case UploadHeadersSchema L (req_headers req) of
           None \<Rightarrow> Inl (sendError env db requestId ip 401 AUTH_FAILED None)
         | Some headers \<Rightarrow>
             let clientIdForAudit = h_client_id headers;
                 timestampSeconds = int (nat_of_digits (h_timestamp headers))
             in if \<not> isTimestampWithinSkew timestampSeconds (clock_skew_check env div 1000)
                       (maxClockSkewSeconds cfg)
                then Inl (sendError env db requestId ip 401 AUTH_FAILED (Some clientIdForAudit))
                else
                  (case select_client (upload_faults env) clientIdForAudit db of
                     Inl e \<Rightarrow> Inl (Uncaught e, db)
                   | Inr None \<Rightarrow>
                       Inl (sendError env db requestId ip 401 AUTH_FAILED (Some clientIdForAudit))
                   | Inr (Some client) \<Rightarrow>
                       if active client \<noteq> 1
                       then Inl (sendError env db requestId ip 401 AUTH_FAILED
                                   (Some clientIdForAudit))
                       else
                         (case hasSeenNonce (upload_faults env) db clientIdForAudit
                                 (h_nonce headers) of
                            Inl e \<Rightarrow> Inl (Uncaught e, db)
                          | Inr seen \<Rightarrow>
                              if seen
                              then Inl (sendError env db requestId ip 409 NONCE_REPLAY
                                          (Some clientIdForAudit))
                              else if \<not> req_isMultipart req
                              then Inl (sendError env db requestId ip 422 PAYLOAD_INVALID
                                          (Some clientIdForAudit))
                              else Inr (headers, client))))"

text \<open>Lines 286 to 375: payload intake, signature check, replay commit, cleanup. The
  store it runs on is the store as it is once the body has been read.\<close>

definition upload_commit ::
  "lib \<Rightarrow> AppConfig \<Rightarrow> UploadEnv \<Rightarrow> UploadRequest \<Rightarrow> UploadHeaders \<Rightarrow> ClientRecord \<Rightarrow> Database
     \<Rightarrow> (reply \<times> Database) + (ParsedUpload \<times> Database)" where
  "upload_commit L cfg env req headers client db =
     (let requestId = requestId_of env; ip = req_ip req;
          clientIdForAudit = h_client_id headers; nonce' = h_nonce headers
      in case readMultipartPayload L (req_parts req) (maxUploadBytes cfg) of
           Inl error \<Rightarrow>
             if exn_message error = ''FILE_TOO_LARGE''
                \<or> exn_code error = Some ''FST_REQ_FILE_TOO_LARGE''
             then Inl (sendError env db requestId ip 413 FILE_TOO_LARGE (Some clientIdForAudit))
             else Inl (sendError env db requestId ip 422 PAYLOAD_INVALID (Some clientIdForAudit))
         | Inr parsedUpload \<Rightarrow>
             let canonical = buildCanonicalString
                   \<lparr>httpMethod = ''POST'', path = ''/api/v1/training-uploads'',
                    clientId = clientIdForAudit, timestamp = h_timestamp headers,
                    nonce = nonce',
                    fileSha256 = md_fileSha256 (metadata parsedUpload),
                    fileSizeBytes = md_fileSizeBytes (metadata parsedUpload),
                    schemaVersion = md_schemaVersion (metadata parsedUpload)\<rparr>;
                 providedSignature = toLowerCase (h_signature headers)
             in (case verifySignature (hmac_sha256 L) (client_secret client) canonical
                        providedSignature of
                   Inl e \<Rightarrow> Inl (Uncaught e, db)
                 | Inr isValidSignature \<Rightarrow>
                     if \<not> isValidSignature
                     then Inl (sendError env db requestId ip 401 AUTH_FAILED
                                 (Some clientIdForAudit))
                     else
                       let now = clock_commit env;
                           expiresAtIso = now + nonceTtlSeconds cfg * 1000
                       in (case persistNonce (upload_faults env) db clientIdForAudit nonce'
                                  now expiresAtIso of
                             Inl e \<Rightarrow>
                               Inl (sendError env db requestId ip 409 NONCE_REPLAY
                                      (Some clientIdForAudit))
                           | Inr db1 \<Rightarrow>
                               (case cleanupExpiredNonces (upload_faults env) db1
                                       (clock_cleanup env) of
                                  Inl e \<Rightarrow> Inr (parsedUpload, db1)
                                | Inr (removed, db2) \<Rightarrow> Inr (parsedUpload, db2)))))"

text \<open>Lines 377 to 407: the call of the forwarder, the audit row, the reply. The third
  component lists the calls made to the forwarder.\<close>

definition upload_forward ::
  "AppConfig \<Rightarrow> UploadEnv \<Rightarrow> UploadRequest \<Rightarrow> UploadHeaders \<Rightarrow> ParsedUpload \<Rightarrow> Database
     \<Rightarrow> reply \<times> Database \<times> ForwardUploadInput list" where
  "upload_forward cfg env req headers parsedUpload db =
     (let requestId = requestId_of env; ip = req_ip req;
          clientIdForAudit = h_client_id headers;
          call = \<lparr>fw_webhookUrl = discordWebhookUrl cfg, fw_requestId = requestId,
                  fw_metadata = metadata parsedUpload, fw_csvData = csvBuffer parsedUpload,
                  fw_verifiedFileSha256 = verifiedFileSha256 parsedUpload\<rparr>
      in case forwarder_result env of
           Inl e \<Rightarrow>
             (case sendError env db requestId ip 502 DISCORD_FORWARD_FAILED
                     (Some clientIdForAudit) of
                (r, db') \<Rightarrow> (r, db', [call]))
         | Inr discordMessageId \<Rightarrow>
             (case writeAuditRow env db requestId (Some clientIdForAudit) ''FORWARDED'' ip None of
                Inl e \<Rightarrow> (Uncaught e, db, [call])
              | Inr db' \<Rightarrow>
                  (Reply 200
                     (UploadSuccess requestId
                        (case discordMessageId of None \<Rightarrow> [] | Some m \<Rightarrow> m)
                        (verifiedFileSha256 parsedUpload)),
                   db', [call])))"

definition upload_handler ::
  "lib \<Rightarrow> AppConfig \<Rightarrow> UploadEnv \<Rightarrow> UploadRequest \<Rightarrow> Database
     \<Rightarrow> reply \<times> Database \<times> ForwardUploadInput list" where
  "upload_handler L cfg env req db =
     (case upload_pre L cfg env req db of
        Inl (r, db') \<Rightarrow> (r, db', [])
      | Inr (headers, client) \<Rightarrow>
          (case upload_commit L cfg env req headers client db of
             Inl (r, db') \<Rightarrow> (r, db', [])
           | Inr (parsedUpload, db') \<Rightarrow> upload_forward cfg env req headers parsedUpload db'))"

subsection \<open>Notions used to state the properties of the pipeline\<close>

definition audit_row ::
  "UploadEnv \<Rightarrow> UploadRequest \<Rightarrow> string option \<Rightarrow> string \<Rightarrow> ApiErrorCode option \<Rightarrow> AuditRecord" where
  "audit_row env req cid st err =
     \<lparr>request_id = requestId_of env, audit_client_id = cid, status = st, error_code = err,
      audit_ip = req_ip req, audit_created_at = clock_audit env\<rparr>"

definition audit_ready :: "UploadEnv \<Rightarrow> Database \<Rightarrow> bool" where
  "audit_ready env db =
     (fault_of (upload_faults env) InsertAudit = None
      \<and> \<not> list_ex (\<lambda>r. request_id r = requestId_of env) (upload_audit db))"


definition forward_call :: "AppConfig \<Rightarrow> UploadEnv \<Rightarrow> ParsedUpload \<Rightarrow> ForwardUploadInput" where
  "forward_call cfg env p =
     \<lparr>fw_webhookUrl = discordWebhookUrl cfg, fw_requestId = requestId_of env,
      fw_metadata = metadata p, fw_csvData = csvBuffer p,
      fw_verifiedFileSha256 = verifiedFileSha256 p\<rparr>"

definition audit_status_of :: "api_body \<Rightarrow> string" where
  "audit_status_of body = (case body of UploadSuccess r m v \<Rightarrow> ''FORWARDED'' | _ \<Rightarrow> ''REJECTED'')"

definition audit_error_of :: "api_body \<Rightarrow> ApiErrorCode option" where
  "audit_error_of body = (case body of ApiError ec r \<Rightarrow> Some ec | _ \<Rightarrow> None)"



section \<open>Sample values\<close>

text \<open>Concrete inputs on which the theorems below are instantiated. \<open>sample_hmac\<close>
  stands in for the keyed hash: it yields digests of the right shape and tells the sample
  secret and message from every other pair.\<close>

definition sample_input :: SignatureInput where
  "sample_input =
     \<lparr>httpMethod = ''POST'', path = ''/api/v1/training-uploads'', clientId = ''relay-client-a1b2'',
      timestamp = ''1700000000'', nonce = ''8eb62752-e147-4f2b-95a8-62de00f99701'',
      fileSha256 = ''abc123'', fileSizeBytes = 42, schemaVersion = ''1''\<rparr>"


definition sample_lib :: lib where
  "sample_lib =
     \<lparr>uuid_ok = (\<lambda>s. length s = 36),
      Date_parse = (\<lambda>s. if s = ''2000-01-01T00:00:00.000Z'' then Some 946684800000 else None),
      JSON_parse = (\<lambda>s. None),
      Number_coerce = (\<lambda>j. case j of JNumber n \<Rightarrow> Some n | _ \<Rightarrow> None),
      hmac_sha256 = (\<lambda>k m. replicate 64 (if k = ''relay-secret-test'' then CHR ''a'' else CHR ''b'')),
      sha256_text = (\<lambda>s. ''sha256:'' @ s),
      sha256_bytes = (\<lambda>b. replicate 64 CHR ''c'')\<rparr>"

definition sample_invite :: InviteCodeRecord where
  "sample_invite =
     \<lparr>code_hash = ''sha256:invite-valid'', max_uses = 1, used_count = 0, expires_at = None,
      invite_created_at = 1600000000000, created_by = Some ''test''\<rparr>"

definition race_db :: Database where
  "race_db = \<lparr>clients = [], invite_codes = [sample_invite], nonces = [], upload_audit = []\<rparr>"

definition race_env :: "string \<Rightarrow> RedeemEnv" where
  "race_env rnd =
     \<lparr>redeem_now = 1700000000000, client_random_hex = rnd, secret_random_hex = rnd @ rnd,
      redeem_faults = []\<rparr>"

definition sample_redeem_body :: "json option" where
  "sample_redeem_body =
     Some (JObject [(''inviteCode'', JString ''invite-valid''),
                    (''installId'', JString ''00000000-0000-0000-0000-000000000001''),
                    (''modVersion'', JString ''1.0.0'')])"

definition race_sessions :: "redeem_session list" where
  "race_sessions =
     [Received (race_env ''0a'') sample_redeem_body, Received (race_env ''0c'') sample_redeem_body]"

definition race_db_after :: Database where
  "race_db_after =
     \<lparr>clients = [\<lparr>client_id = ''relay-client-0c'', client_secret = ''relay-secret-0c0c'',
                  install_id = Some ''00000000-0000-0000-0000-000000000001'', active = 1,
                  client_created_at = 1700000000000, revoked_at = None\<rparr>],
      invite_codes = [sample_invite\<lparr>used_count := 1\<rparr>], nonces = [], upload_audit = []\<rparr>"

definition expired_db :: Database where
  "expired_db =
     \<lparr>clients = [],
      invite_codes = [sample_invite\<lparr>used_count := 1,
                        expires_at := Some ''2000-01-01T00:00:00.000Z''\<rparr>],
      nonces = [], upload_audit = []\<rparr>"

definition malformed_redeem_body :: "json option" where
  "malformed_redeem_body =
     Some (JObject [(''inviteCode'', JString ''invite-valid''),
                    (''installId'', JString ''not-a-uuid''),
                    (''modVersion'', JString ''1.0.0'')])"

definition unknown_redeem_body :: "json option" where
  "unknown_redeem_body =
     Some (JObject [(''inviteCode'', JString ''missing''),
                    (''installId'', JString ''00000000-0000-0000-0000-000000000001''),
                    (''modVersion'', JString ''1.0.0'')])"

definition sample_cfg :: AppConfig where
  "sample_cfg =
     \<lparr>maxUploadBytes = 26214400, maxClockSkewSeconds = 300, nonceTtlSeconds = 600,
      discordWebhookUrl = ''https://example.com/webhook''\<rparr>"

definition sample_csv :: "byte list" where
  "sample_csv = [0x61, 0x2C, 0x62]"

definition sample_metadata_json :: "string \<Rightarrow> json" where
  "sample_metadata_json declared_hash =
     JObject [(''schemaVersion'', JString ''1''), (''modVersion'', JString ''1.0.0''),
              (''aiModelVersion'', JString ''model-1''), (''playerName'', JString ''Player1''),
              (''playerUuid'', JString ''7c9e6679-7425-40de-944b-e07fc1f90ae7''),
              (''clientTimestamp'', JString ''2026-01-01T00:00:00.000Z''),
              (''fileSha256'', JString declared_hash), (''fileSizeBytes'', JNumber 3)]"

definition lower_sig :: string where
  "lower_sig = replicate 64 CHR ''a''"

definition upper_sig :: string where
  "upper_sig = replicate 64 CHR ''A''"

definition csv_hash :: string where
  "csv_hash = replicate 64 CHR ''c''"

definition wrong_hash :: string where
  "wrong_hash = replicate 64 CHR ''f''"

definition upload_lib :: lib where
  "upload_lib =
     \<lparr>uuid_ok = (\<lambda>s. length s = 36),
      Date_parse = (\<lambda>s. None),
      JSON_parse =
        (\<lambda>s. if s = ''metadata'' then Some (sample_metadata_json csv_hash)
             else if s = ''metadata-wrong-hash'' then Some (sample_metadata_json wrong_hash)
             else None),
      Number_coerce = (\<lambda>j. case j of JNumber n \<Rightarrow> Some n | _ \<Rightarrow> None),
      hmac_sha256 = (\<lambda>k m. if k = ''relay-secret-test'' then lower_sig else wrong_hash),
      sha256_text = (\<lambda>s. ''sha256:'' @ s),
      sha256_bytes = (\<lambda>b. csv_hash)\<rparr>"

definition sample_headers :: "string \<Rightarrow> (string \<rightharpoonup> string)" where
  "sample_headers signature =
     [''x-scamscreener-client-id'' \<mapsto> ''relay-client-test'',
      ''x-scamscreener-timestamp'' \<mapsto> ''1700000000'',
      ''x-scamscreener-nonce'' \<mapsto> ''8eb62752-e147-4f2b-95a8-62de00f99701'',
      ''x-scamscreener-signature'' \<mapsto> signature,
      ''x-scamscreener-signature-version'' \<mapsto> ''v1'']"

definition sample_upload :: "string \<Rightarrow> string \<Rightarrow> UploadRequest" where
  "sample_upload signature metadata_field =
     \<lparr>req_headers = sample_headers signature, req_ip = ''127.0.0.1'', req_isMultipart = True,
      req_parts = [FieldPart ''metadata'' metadata_field,
                   FilePart ''training_file'' [sample_csv] None]\<rparr>"

definition sample_env :: "string \<Rightarrow> exn + string option \<Rightarrow> faults \<Rightarrow> UploadEnv" where
  "sample_env uuid forwarded flt =
     \<lparr>request_uuid = uuid, clock_skew_check = 1700000100000, clock_commit = 1700000100001,
      clock_cleanup = 1700000100002, clock_audit = 1700000100003,
      forwarder_result = forwarded, upload_faults = flt\<rparr>"

definition sample_client :: ClientRecord where
  "sample_client =
     \<lparr>client_id = ''relay-client-test'', client_secret = ''relay-secret-test'',
      install_id = Some ''00000000-0000-0000-0000-000000000001'', active = 1,
      client_created_at = 1600000000000, revoked_at = None\<rparr>"

definition upload_db :: Database where
  "upload_db = \<lparr>clients = [sample_client], invite_codes = [], nonces = [], upload_audit = []\<rparr>"

definition sample_metadata :: UploadMetadata where
  "sample_metadata =
     \<lparr>md_schemaVersion = ''1'', md_modVersion = ''1.0.0'', md_aiModelVersion = ''model-1'',
      md_playerName = ''Player1'', md_playerUuid = ''7c9e6679-7425-40de-944b-e07fc1f90ae7'',
      md_clientTimestamp = ''2026-01-01T00:00:00.000Z'',
      md_fileSha256 = csv_hash, md_fileSizeBytes = 3\<rparr>"

definition sample_nonce_row :: NonceRecord where
  "sample_nonce_row =
     \<lparr>nonce_client_id = ''relay-client-test'',
      nonce_value = ''8eb62752-e147-4f2b-95a8-62de00f99701'',
      seen_at = 1700000100001, nonce_expires_at = 1700000700001\<rparr>"

definition sample_audit_row :: "string \<Rightarrow> string option \<Rightarrow> string \<Rightarrow> ApiErrorCode option \<Rightarrow> AuditRecord" where
  "sample_audit_row rid cid st err =
     \<lparr>request_id = rid, audit_client_id = cid, status = st, error_code = err,
      audit_ip = ''127.0.0.1'', audit_created_at = 1700000100003\<rparr>"

definition sample_call :: "string \<Rightarrow> ForwardUploadInput" where
  "sample_call rid =
     \<lparr>fw_webhookUrl = ''https://example.com/webhook'', fw_requestId = rid,
      fw_metadata = sample_metadata, fw_csvData = sample_csv,
      fw_verifiedFileSha256 = csv_hash\<rparr>"

definition sample_parsed_headers :: "string \<Rightarrow> UploadHeaders" where
  "sample_parsed_headers sg =
     \<lparr>h_client_id = ''relay-client-test'', h_timestamp = ''1700000000'',
      h_nonce = ''8eb62752-e147-4f2b-95a8-62de00f99701'', h_signature = sg,
      h_signature_version = ''v1''\<rparr>"

definition sample_parsed_upload :: ParsedUpload where
  "sample_parsed_upload =
     \<lparr>metadata = sample_metadata, csvBuffer = sample_csv, verifiedFileSha256 = csv_hash\<rparr>"





section \<open>Properties of the hex comparison\<close>

lemma timingSafeEqualHex_eq:
  "timingSafeEqualHex e p =
     Inr (hex_regex e \<and> hex_regex p \<and> length e = length p \<and> even (length e)
          \<and> buffer_from_hex e = buffer_from_hex p)"
  by (auto simp: timingSafeEqualHex_def timingSafeEqual_def Let_def even_iff_mod_2_eq_zero)

text \<open>
  Claim C7. Whatever two strings it is given, the hex comparison returns a boolean and
  never throws; the result is \<open>false\<close> as soon as one of the strings holds a character
  that is not a hex digit, the lengths differ, or the decoded bytes differ.
\<close>

theorem timingSafeEqualHex_never_throws:
  "(\<exists>b. timingSafeEqualHex e p = Inr b) \<and>
   ((\<exists>c \<in> set e \<union> set p. \<not> is_hex_char c) \<or> length e \<noteq> length p
       \<or> buffer_from_hex e \<noteq> buffer_from_hex p
      \<longrightarrow> timingSafeEqualHex e p = Inr False)"
  by (auto simp: timingSafeEqualHex_eq hex_regex_def list_all_iff)

theorem timingSafeEqualHex_never_throws_witness:
  "timingSafeEqualHex ''zz'' ''ab'' = Inr False \<and> timingSafeEqualHex ''abc'' ''ab'' = Inr False
   \<and> timingSafeEqualHex ''ab'' ''ac'' = Inr False"
  using timingSafeEqualHex_never_throws [of "''zz''" "''ab''"]
        timingSafeEqualHex_never_throws [of "''abc''" "''ab''"]
        timingSafeEqualHex_never_throws [of "''ab''" "''ac''"]
  by (simp add: is_hex_char_def is_lower_hex_def is_digit_def charCode_def hex_val_def)

text \<open>
  Claim C9. Comparing a string with itself gives \<open>true\<close> exactly when the string is a
  non-empty hex string of even length; the empty string, a string of odd length (such as
  \<open>abc\<close>) and a string with a non-hex character compare unequal to themselves.
\<close>

theorem timingSafeEqualHex_reflexive_iff:
  "timingSafeEqualHex s s = Inr (s \<noteq> [] \<and> even (length s) \<and> list_all is_hex_char s)
   \<and> timingSafeEqualHex ''abc'' ''abc'' = Inr False"
  by (auto simp: timingSafeEqualHex_eq hex_regex_def)

theorem timingSafeEqualHex_reflexive_iff_witness:
  "timingSafeEqualHex ''c0ffee'' ''c0ffee'' = Inr True \<and> timingSafeEqualHex [] [] = Inr False
   \<and> timingSafeEqualHex ''0g'' ''0g'' = Inr False"
  using timingSafeEqualHex_reflexive_iff [of "''c0ffee''"] timingSafeEqualHex_reflexive_iff [of "[]"]
    timingSafeEqualHex_reflexive_iff [of "''0g''"]
  by (simp add: is_hex_char_def is_lower_hex_def is_digit_def charCode_def)

section \<open>Properties of the canonical string and the signature check\<close>

lemma charCode_lt: "charCode c < 256"
  unfolding charCode_def by (metis of_char_of char_of_char mod_less_divisor zero_less_numeral)



lemma charCode_inj: "charCode a = charCode b \<Longrightarrow> a = b"
  by (simp add: charCode_def)






lemma to_lower_lower_hex: "is_lower_hex c \<Longrightarrow> to_lower_char c = c"
  by (auto simp: is_lower_hex_def is_digit_def to_lower_char_def Let_def)

lemma toLowerCase_lower_hex: "list_all is_lower_hex s \<Longrightarrow> toLowerCase s = s"
  by (induction s) (simp_all add: toLowerCase_def to_lower_lower_hex)

lemma lower_hex_is_hex: "list_all is_lower_hex s \<Longrightarrow> list_all is_hex_char s"
  by (induction s) (simp_all add: is_hex_char_def)

lemma hex_val_lower:
  assumes "is_lower_hex c"
  obtains x where "hex_val c = Some x" and "x < 16"
  using assms by (auto simp: is_lower_hex_def is_digit_def hex_val_def Let_def)

lemma hex_val_inj_lower:
  assumes "is_lower_hex a" "is_lower_hex b" "hex_val a = hex_val b"
  shows "a = b"
proof -
  from assms have "charCode a = charCode b"
    by (auto simp: is_lower_hex_def is_digit_def hex_val_def Let_def split: if_splits)
  then show ?thesis by (rule charCode_inj)
qed

lemma byte_of_nibbles_inj:
  assumes "h < 16" "l < 16" "h' < 16" "l' < 16"
    and "(of_nat (16 * h + l) :: byte) = of_nat (16 * h' + l')"
  shows "h = h' \<and> l = l'"
proof -
  have b: "16 * h + l < 256" "16 * h' + l' < 256" using assms by simp_all
  from assms(5) have "take_bit 8 (16 * h + l) = take_bit 8 (16 * h' + l')"
    unfolding word_of_nat_eq_iff by simp
  with b have "16 * h + l = 16 * h' + l'"
    by (simp add: take_bit_nat_eq_self)
  then have "(16 * h + l) div 16 = (16 * h' + l') div 16"
    and "(16 * h + l) mod 16 = (16 * h' + l') mod 16"
    by simp_all
  with assms(1-4) show ?thesis by simp
qed

lemma buffer_from_hex_inj:
  "list_all is_lower_hex xs \<Longrightarrow> list_all is_lower_hex ys \<Longrightarrow> length xs = length ys
     \<Longrightarrow> even (length xs) \<Longrightarrow> buffer_from_hex xs = buffer_from_hex ys \<Longrightarrow> xs = ys"
proof (induction xs arbitrary: ys rule: buffer_from_hex.induct)
  case (1 a b rest)
  from 1(4) obtain a' b' rest' where ys: "ys = a' # b' # rest'"
    by (cases ys; cases "tl ys") auto
  from 1(2) obtain x y where x: "hex_val a = Some x" "x < 16" and y: "hex_val b = Some y" "y < 16"
    by (auto elim!: hex_val_lower)
  from 1(3) ys obtain x' y' where x': "hex_val a' = Some x'" "x' < 16"
    and y': "hex_val b' = Some y'" "y' < 16"
    by (auto elim!: hex_val_lower)
  from 1(6) ys x y x' y' have hd: "(of_nat (16 * x + y) :: byte) = of_nat (16 * x' + y')"
    and tl: "buffer_from_hex rest = buffer_from_hex rest'"
    by simp_all
  from byte_of_nibbles_inj [OF x(2) y(2) x'(2) y'(2) hd] have "x = x'" "y = y'" by simp_all
  with x y x' y' 1(2,3) ys have "a = a'" "b = b'"
    by (auto intro: hex_val_inj_lower)
  moreover have "rest = rest'"
    using 1(1) [OF x(1) y(1), of rest'] 1(2,3,4,5) ys tl by simp
  ultimately show ?case using ys by simp
next
  case (2 a)
  from 2(4) show ?case by simp
next
  case 3
  then show ?case by simp
qed

lemma digest_compare:
  assumes "is_digest d" "is_digest d'"
  shows "timingSafeEqualHex d (toLowerCase d') = Inr (d = d')"
proof -
  from assms have l: "list_all is_lower_hex d" "list_all is_lower_hex d'"
    and n: "length d = 64" "length d' = 64"
    by (simp_all add: is_digest_def)
  from n have ne: "d \<noteq> []" "d' \<noteq> []" by auto
  have "buffer_from_hex d = buffer_from_hex d' \<longleftrightarrow> d = d'"
    using buffer_from_hex_inj [OF l] n by auto
  with l n ne show ?thesis
    by (simp add: timingSafeEqualHex_eq toLowerCase_lower_hex hex_regex_def lower_hex_is_hex)
qed

lemma sample_canonical:
  "buildCanonicalString sample_input =
     ''POST'' @ [CHR 0x0A] @ ''/api/v1/training-uploads'' @ [CHR 0x0A] @ ''relay-client-a1b2''
     @ [CHR 0x0A] @ ''1700000000'' @ [CHR 0x0A] @ ''8eb62752-e147-4f2b-95a8-62de00f99701''
     @ [CHR 0x0A] @ ''abc123'' @ [CHR 0x0A] @ ''42'' @ [CHR 0x0A] @ ''1''"
  by code_simp


lemma sample_changed_canonical: "buildCanonicalString (sample_input\<lparr>fileSizeBytes := 43\<rparr>) \<noteq> buildCanonicalString sample_input"
  by code_simp

lemma sample_digests_differ: "replicate 64 CHR ''b'' \<noteq> replicate 64 CHR ''a''"
  by code_simp







section \<open>Properties of redemption\<close>

lemma invite_progress_refl: "invite_progress r r"
  by (simp add: invite_progress_def)

lemma invite_progress_trans:
  "invite_progress a b \<Longrightarrow> invite_progress b c \<Longrightarrow> invite_progress a c"
  unfolding invite_progress_def
  by (cases a; cases b; cases c) auto

lemma ledger_progress_refl: "list_all2 invite_progress rows rows"
  by (simp add: list_all2_refl invite_progress_refl)

lemma ledger_progress_trans:
  "list_all2 invite_progress xs ys \<Longrightarrow> list_all2 invite_progress ys zs
     \<Longrightarrow> list_all2 invite_progress xs zs"
  by (rule list_all2_trans [where ?P1.0 = invite_progress and ?P2.0 = invite_progress])
     (auto intro: invite_progress_trans)

lemma guarded_update_progress:
  "list_all2 invite_progress rows
     (map (\<lambda>r. if invite_open h r then r\<lparr>used_count := used_count r + 1\<rparr> else r) rows)"
  by (induction rows) (auto simp: invite_progress_def invite_open_def)

lemma guarded_update_total:
  "sum_list (map (used_count \<circ>
       (\<lambda>r. if invite_open h r then r\<lparr>used_count := used_count r + 1\<rparr> else r)) rows)
   = sum_list (map used_count rows) + int (length (filter (invite_open h) rows))"
  by (induction rows) auto

text \<open>What one committed or aborted transaction does to the store.\<close>

lemma redeem_commit_cases:
  assumes "redeem_commit env t db = (r, db')"
  shows "(db' = db \<and> (\<forall>a b c code. r \<noteq> Reply code (RedeemSuccess a b c)))
       \<or> (r = Reply 200 (RedeemSuccess (t_clientId t) (t_clientSecret t) ''v1'')
          \<and> list_all2 invite_progress (invite_codes db) (invite_codes db')
          \<and> total_uses db' = total_uses db + 1
          \<and> (\<exists>row. clients db' = clients db @ [row] \<and> client_id row = t_clientId t))"
  using assms
  by (auto simp: redeem_commit_def transaction_def redeem_tx_def update_invite_use_def
        insert_client_def total_uses_def guarded_update_progress guarded_update_total
      split: sum.splits option.splits if_splits prod.splits)

lemma redeem_check_not_success:
  "redeem_check L env body db = Inl r \<Longrightarrow> \<not> is_success (Replied r)"
  by (auto simp: redeem_check_def is_success_def Let_def
      split: option.splits sum.splits if_splits)

lemma redeem_step_progress:
  assumes "redeem_step L db s = (db', s')"
  shows "list_all2 invite_progress (invite_codes db) (invite_codes db')
       \<and> (\<exists>new. clients db' = clients db @ new
              \<and> int (length new) = total_uses db' - total_uses db
              \<and> of_bool (is_success s') = of_bool (is_success s) + length new)"
proof (cases s)
  case (Received env body)
  with assms show ?thesis
    by (auto simp: redeem_step_def ledger_progress_refl is_success_def
        dest: redeem_check_not_success split: sum.splits)
next
  case (Checked env t)
  obtain r d where c: "redeem_commit env t db = (r, d)" by (cases "redeem_commit env t db")
  with assms Checked have eq: "db' = d" "s' = Replied r" by (simp_all add: redeem_step_def)
  from redeem_commit_cases [OF c] show ?thesis
  proof
    assume "d = db \<and> (\<forall>a b c code. r \<noteq> Reply code (RedeemSuccess a b c))"
    with eq Checked show ?thesis
      by (auto simp: ledger_progress_refl is_success_def split: reply.splits api_body.splits)
  next
    assume "r = Reply 200 (RedeemSuccess (t_clientId t) (t_clientSecret t) ''v1'')
          \<and> list_all2 invite_progress (invite_codes db) (invite_codes d)
          \<and> total_uses d = total_uses db + 1
          \<and> (\<exists>row. clients d = clients db @ [row] \<and> client_id row = t_clientId t)"
    with eq Checked show ?thesis
      by (auto simp: is_success_def)
  qed
next
  case (Replied r)
  with assms show ?thesis
    by (auto simp: redeem_step_def ledger_progress_refl)
qed

lemma successes_update:
  "i < length ss \<Longrightarrow>
     successes (ss[i := s']) + of_bool (is_success (ss ! i)) = successes ss + of_bool (is_success s')"
  unfolding successes_def
proof (induction ss arbitrary: i)
  case Nil
  then show ?case by simp
next
  case (Cons a ss)
  then show ?case by (cases i) auto
qed

lemma run_redeems_length: "run_redeems L sched (db, ss) = (db', ss') \<Longrightarrow> length ss' = length ss"
proof (induction sched arbitrary: db ss)
  case Nil
  then show ?case by simp
next
  case (Cons i sched)
  then show ?case
    by (cases "i < length ss") (auto split: prod.splits)
qed

lemma run_redeems_progress:
  "run_redeems L sched (db, ss) = (db', ss') \<Longrightarrow>
     list_all2 invite_progress (invite_codes db) (invite_codes db')
     \<and> (\<exists>new. clients db' = clients db @ new
            \<and> int (length new) = total_uses db' - total_uses db
            \<and> successes ss' = successes ss + length new)"
proof (induction sched arbitrary: db ss)
  case Nil
  then show ?case by (simp add: ledger_progress_refl)
next
  case (Cons i sched)
  show ?case
  proof (cases "i < length ss")
    case False
    with Cons show ?thesis by simp
  next
    case True
    obtain d s' where st: "redeem_step L db (ss ! i) = (d, s')"
      by (cases "redeem_step L db (ss ! i)")
    with True Cons.prems have run: "run_redeems L sched (d, ss[i := s']) = (db', ss')" by simp
    from redeem_step_progress [OF st] obtain new1 where
      p1: "list_all2 invite_progress (invite_codes db) (invite_codes d)"
      and c1: "clients d = clients db @ new1"
      and u1: "int (length new1) = total_uses d - total_uses db"
      and s1: "(of_bool (is_success s') :: nat) = of_bool (is_success (ss ! i)) + length new1"
      by blast
    from Cons.IH [OF run] obtain new2 where
      p2: "list_all2 invite_progress (invite_codes d) (invite_codes db')"
      and c2: "clients db' = clients d @ new2"
      and u2: "int (length new2) = total_uses db' - total_uses d"
      and s2: "successes ss' = successes (ss[i := s']) + length new2"
      by blast
    from successes_update [OF True, of s'] s1
    have "successes (ss[i := s']) = successes ss + length new1" by simp
    with s2 have "successes ss' = successes ss + length (new1 @ new2)" by simp
    moreover from c1 c2 have "clients db' = clients db @ (new1 @ new2)" by simp
    moreover from u1 u2 have "int (length (new1 @ new2)) = total_uses db' - total_uses db" by simp
    ultimately show ?thesis
      using ledger_progress_trans [OF p1 p2] by blast
  qed
qed

lemma filter_single_find: "filter P xs = [x] \<Longrightarrow> find P xs = Some x"
  by (induction xs) (auto split: if_splits simp: filter_empty_conv find_None_iff)

lemma invite_expired_used_count [simp]:
  "invite_expired L (r\<lparr>used_count := u\<rparr>) now = invite_expired L r now"
  by (simp add: invite_expired_def)

lemma open_rows:
  assumes "filter (\<lambda>r. code_hash r = h) rows = [row]"
  shows "filter (invite_open h) rows = (if used_count row < max_uses row then [row] else [])"
proof -
  have "filter (invite_open h) rows
        = filter (\<lambda>r. used_count r < max_uses r) (filter (\<lambda>r. code_hash r = h) rows)"
    by (simp add: invite_open_def [abs_def])
  with assms show ?thesis by simp
qed

lemma rows_after_update:
  assumes "filter (\<lambda>r. code_hash r = h) rows = [row]"
  shows "filter (\<lambda>r. code_hash r = h)
           (map (\<lambda>r. if invite_open h r then r\<lparr>used_count := used_count r + 1\<rparr> else r) rows)
         = [if invite_open h row then row\<lparr>used_count := used_count row + 1\<rparr> else row]"
proof -
  let ?f = "\<lambda>r. if invite_open h r then r\<lparr>used_count := used_count r + 1\<rparr> else r"
  have "(\<lambda>r. code_hash r = h) \<circ> ?f = (\<lambda>r. code_hash r = h)"
    by (auto simp: fun_eq_iff)
  then have "filter (\<lambda>r. code_hash r = h) (map ?f rows)
             = map ?f (filter (\<lambda>r. code_hash r = h) rows)"
    by (simp add: filter_map)
  with assms show ?thesis by simp
qed

lemma check_in_race:
  assumes rq: "racing_request L h inv0 db0 (e, body)"
    and rows: "filter (\<lambda>r. code_hash r = h) (invite_codes db) = [inv0\<lparr>used_count := u\<rparr>]"
    and m: "max_uses inv0 = 1"
  shows "(1 \<le> u \<and> redeem_check L e body db = Inl (Reply 409 (ApiError INVITE_ALREADY_USED None)))
       \<or> (u < 1 \<and> (\<exists>t. redeem_check L e body db = Inr t \<and> t_codeHash t = h
              \<and> t_clientId t = randomToken ''relay-client-'' (client_random_hex e)))"
proof -
  from rq obtain b where b: "RedeemBodySchema L body = Some b" "hashInviteCode L (inviteCode b) = h"
    by (auto simp: racing_request_def split: option.splits)
  from rq have nf: "fault_of (redeem_faults e) SelectInvite = None"
    and ne: "\<not> invite_expired L inv0 (redeem_now e)"
    by (simp_all add: racing_request_def)
  from filter_single_find [OF rows] nf
  have sel: "select_invite (redeem_faults e) h db = Inr (Some (inv0\<lparr>used_count := u\<rparr>))"
    by (simp add: select_invite_def)
  show ?thesis
    using b sel ne m by (auto simp: redeem_check_def Let_def)
qed

lemma commit_in_race_open:
  assumes rq: "racing_request L h inv0 db0 (e, body)"
    and rows: "filter (\<lambda>r. code_hash r = h) (invite_codes db) = [inv0\<lparr>used_count := 0\<rparr>]"
    and m: "max_uses inv0 = 1"
    and t: "t_codeHash t = h" "t_clientId t = randomToken ''relay-client-'' (client_random_hex e)"
    and fresh: "clients db = clients db0"
  shows "\<exists>db'. redeem_commit e t db
            = (Reply 200 (RedeemSuccess (t_clientId t) (t_clientSecret t) ''v1''), db')
          \<and> filter (\<lambda>r. code_hash r = h) (invite_codes db') = [inv0\<lparr>used_count := 1\<rparr>]"
proof -
  from rq have nf: "fault_of (redeem_faults e) UpdateInvite = None" "fault_of (redeem_faults e) InsertClient = None"
    and free: "\<not> list_ex (\<lambda>r. client_id r = t_clientId t) (clients db)"
    using t fresh by (simp_all add: racing_request_def)
  have "inv0\<lparr>used_count := 0\<rparr> \<in> set (filter (\<lambda>r. code_hash r = h) (invite_codes db))"
    using rows by simp
  then have "code_hash inv0 = h" by simp
  with m have op: "invite_open h (inv0\<lparr>used_count := 0\<rparr>)"
    by (simp add: invite_open_def)
  from open_rows [OF rows] m have n: "length (filter (invite_open h) (invite_codes db)) = 1"
    by simp
  from rows_after_update [OF rows] op
  have after: "filter (\<lambda>r. code_hash r = h)
       (map (\<lambda>r. if invite_open h r then r\<lparr>used_count := used_count r + 1\<rparr> else r)
          (invite_codes db)) = [inv0\<lparr>used_count := 1\<rparr>]"
    by simp
  show ?thesis
    using nf free n after t
    by (simp add: redeem_commit_def transaction_def redeem_tx_def update_invite_use_def
        insert_client_def)
qed

lemma commit_in_race_closed:
  assumes rq: "racing_request L h inv0 db0 (e, body)"
    and rows: "filter (\<lambda>r. code_hash r = h) (invite_codes db) = [inv0\<lparr>used_count := 1\<rparr>]"
    and m: "max_uses inv0 = 1"
    and t: "t_codeHash t = h"
  shows "redeem_commit e t db = (Reply 409 (ApiError INVITE_ALREADY_USED None), db)"
proof -
  from rq have nf: "fault_of (redeem_faults e) UpdateInvite = None"
    by (simp add: racing_request_def)
  from open_rows [OF rows] m have n: "length (filter (invite_open h) (invite_codes db)) = 0"
    by simp
  show ?thesis
    using nf n t
    by (simp add: redeem_commit_def transaction_def redeem_tx_def update_invite_use_def)
qed

lemma session_ok_final:
  "session_ok h q s \<Longrightarrow> is_replied s \<Longrightarrow> is_success s \<or> is_already_used s"
  by (cases q) (auto simp: session_ok_def is_replied_def split: redeem_session.splits)

lemma success_not_already_used: "is_success s \<Longrightarrow> \<not> is_already_used s"
  by (auto simp: is_success_def is_already_used_def)

lemma list_ex_update:
  "list_ex P (xs[i := x]) \<Longrightarrow> P x \<or> list_ex P xs"
  using set_update_subset_insert [of xs i x] by (auto simp: list_ex_iff)

lemma race_step:
  assumes inv: "race_inv h inv0 db0 reqs db ss u"
    and rq: "list_all (racing_request L h inv0 db0) reqs"
    and m: "max_uses inv0 = 1"
    and i: "i < length ss"
    and st: "redeem_step L db (ss ! i) = (db', s')"
  shows "\<exists>u'. race_inv h inv0 db0 reqs db' (ss[i := s']) u'"
proof -
  from inv have u: "u = 0 \<or> u = 1"
    and rows: "filter (\<lambda>r. code_hash r = h) (invite_codes db) = [inv0\<lparr>used_count := u\<rparr>]"
    and fresh: "u = 0 \<longrightarrow> clients db = clients db0"
    and ok: "list_all2 (session_ok h) reqs ss"
    and cnt: "successes ss = nat u"
    and used: "list_ex is_already_used ss \<longrightarrow> u = 1"
    by (simp_all add: race_inv_def)
  from ok have len: "length reqs = length ss" by (rule list_all2_lengthD)
  obtain e body where q: "reqs ! i = (e, body)" by (cases "reqs ! i")
  from rq i len q have rqi: "racing_request L h inv0 db0 (e, body)"
    by (metis list_all_length)
  from ok i q have oki: "session_ok h (e, body) (ss ! i)"
    by (metis list_all2_nthD2)
  have keep: "list_all2 (session_ok h) reqs (ss[i := s'])" if "session_ok h (e, body) s'"
  proof -
    have "reqs[i := (e, body)] = reqs" by (metis q list_update_id)
    with list_all2_update_cong [OF ok, of "(e, body)" s' i] that show ?thesis by simp
  qed
  have same: "race_inv h inv0 db0 reqs db (ss[i := ss ! i]) u"
    using inv by simp
  from oki consider
      (received) "ss ! i = Received e body"
    | (checked) t where "ss ! i = Checked e t" "t_codeHash t = h"
        "t_clientId t = randomToken ''relay-client-'' (client_random_hex e)"
    | (finished) "is_success (ss ! i) \<or> is_already_used (ss ! i)"
    by (auto simp: session_ok_def split: redeem_session.splits)
  then show ?thesis
  proof cases
    case received
    from check_in_race [OF rqi rows m] show ?thesis
    proof (elim disjE conjE exE)
      assume "1 \<le> u" and c: "redeem_check L e body db = Inl (Reply 409 (ApiError INVITE_ALREADY_USED None))"
      with u have u1: "u = 1" by simp
      from st received c have eq: "db' = db" "s' = Replied (Reply 409 (ApiError INVITE_ALREADY_USED None))"
        by (simp_all add: redeem_step_def)
      have s'ok: "session_ok h (e, body) s'" and ns: "\<not> is_success s'"
        using eq by (simp_all add: session_ok_def is_already_used_def is_success_def)
      have nsi: "\<not> is_success (ss ! i)" using received by (simp add: is_success_def)
      from successes_update [OF i, of s'] ns nsi cnt have "successes (ss[i := s']) = nat u" by simp
      with u1 rows fresh keep [OF s'ok] eq show ?thesis
        unfolding race_inv_def by blast
    next
      fix t assume "u < 1" and c: "redeem_check L e body db = Inr t" and t: "t_codeHash t = h"
        "t_clientId t = randomToken ''relay-client-'' (client_random_hex e)"
      from st received c have eq: "db' = db" "s' = Checked e t"
        by (simp_all add: redeem_step_def)
      have s'ok: "session_ok h (e, body) s'" and ns: "\<not> is_success s'"
        and nu: "\<not> is_already_used s'"
        using eq t by (simp_all add: session_ok_def is_already_used_def is_success_def)
      have nsi: "\<not> is_success (ss ! i)" using received by (simp add: is_success_def)
      from successes_update [OF i, of s'] ns nsi cnt have c': "successes (ss[i := s']) = nat u" by simp
      have "list_ex is_already_used (ss[i := s']) \<longrightarrow> u = 1"
        using used nu list_ex_update [of is_already_used ss i s'] by blast
      with u rows fresh keep [OF s'ok] eq c' show ?thesis
        unfolding race_inv_def by blast
    qed
  next
    case checked
    have nsi: "\<not> is_success (ss ! i)" using checked by (simp add: is_success_def)
    from u show ?thesis
    proof
      assume u0: "u = 0"
      with rows fresh have r0: "filter (\<lambda>r. code_hash r = h) (invite_codes db) = [inv0\<lparr>used_count := 0\<rparr>]"
        and f0: "clients db = clients db0" by simp_all
      from commit_in_race_open [OF rqi r0 m checked(2,3) f0] obtain d where
        c: "redeem_commit e t db = (Reply 200 (RedeemSuccess (t_clientId t) (t_clientSecret t) ''v1''), d)"
        and r1: "filter (\<lambda>r. code_hash r = h) (invite_codes d) = [inv0\<lparr>used_count := 1\<rparr>]"
        by blast
      from st checked c have eq: "db' = d"
        "s' = Replied (Reply 200 (RedeemSuccess (t_clientId t) (t_clientSecret t) ''v1''))"
        by (simp_all add: redeem_step_def)
      have s'ok: "session_ok h (e, body) s'" and ys: "is_success s'"
        using eq by (simp_all add: session_ok_def is_success_def)
      from successes_update [OF i, of s'] ys nsi cnt u0 have c': "successes (ss[i := s']) = nat 1"
        by simp
      have "race_inv h inv0 db0 reqs db' (ss[i := s']) 1"
        unfolding race_inv_def using r1 eq keep [OF s'ok] c' by simp
      then show ?thesis ..
    next
      assume u1: "u = 1"
      with rows have r1: "filter (\<lambda>r. code_hash r = h) (invite_codes db) = [inv0\<lparr>used_count := 1\<rparr>]"
        by simp
      from commit_in_race_closed [OF rqi r1 m checked(2)]
      have c: "redeem_commit e t db = (Reply 409 (ApiError INVITE_ALREADY_USED None), db)" .
      from st checked c have eq: "db' = db" "s' = Replied (Reply 409 (ApiError INVITE_ALREADY_USED None))"
        by (simp_all add: redeem_step_def)
      have s'ok: "session_ok h (e, body) s'" and ns: "\<not> is_success s'"
        using eq by (simp_all add: session_ok_def is_already_used_def is_success_def)
      from successes_update [OF i, of s'] ns nsi cnt have "successes (ss[i := s']) = nat u" by simp
      with u1 rows keep [OF s'ok] eq show ?thesis
        unfolding race_inv_def by auto
    qed
  next
    case finished
    then obtain r where "ss ! i = Replied r"
      by (auto simp: is_success_def is_already_used_def split: redeem_session.splits)
    with st have "db' = db" "s' = ss ! i" by (simp_all add: redeem_step_def)
    with same show ?thesis by auto
  qed
qed

lemma race_run:
  assumes rq: "list_all (racing_request L h inv0 db0) reqs"
    and m: "max_uses inv0 = 1"
  shows "race_inv h inv0 db0 reqs db ss u \<Longrightarrow> run_redeems L sched (db, ss) = (db', ss')
           \<Longrightarrow> \<exists>u'. race_inv h inv0 db0 reqs db' ss' u'"
proof (induction sched arbitrary: db ss u)
  case Nil
  then show ?case by auto
next
  case (Cons i sched)
  show ?case
  proof (cases "i < length ss")
    case False
    with Cons show ?thesis by simp
  next
    case True
    obtain d s' where st: "redeem_step L db (ss ! i) = (d, s')"
      by (cases "redeem_step L db (ss ! i)")
    with True Cons.prems(2) have run: "run_redeems L sched (d, ss[i := s']) = (db', ss')" by simp
    from race_step [OF Cons.prems(1) rq m True st] obtain u1 where
      "race_inv h inv0 db0 reqs d (ss[i := s']) u1" ..
    from Cons.IH [OF this run] show ?thesis .
  qed
qed

text \<open>
  Claim C1. Take any requests in any states and any schedule of their steps. Every row of
  the invite ledger keeps its fields, its counter never goes down and never passes
  \<open>max_uses\<close> (if it started within it); the credentials present afterwards are the old
  ones followed by new ones, and the number of new ones is at once the growth of the
  counters and the number of new successful replies. A transaction whose guarded update
  changes no row replies \<open>INVITE_ALREADY_USED\<close> and leaves the store as it was. And when
  two requests race for one unexpired invite with \<open>max_uses = 1\<close> and \<open>used_count = 0\<close>
  (both valid, the store healthy, the drawn client ids free), then however their steps
  interleave, once both have replied exactly one has succeeded, the other got
  \<open>INVITE_ALREADY_USED\<close>, and the counter is 1.
\<close>

theorem redeem_counts_uses_and_credentials_together:
  assumes run: "run_redeems L sched (db, ss) = (db', ss')"
  shows "list_all2 invite_progress (invite_codes db) (invite_codes db')
    \<and> (\<exists>new. clients db' = clients db @ new
           \<and> int (length new) = total_uses db' - total_uses db
           \<and> successes ss' = successes ss + length new)
    \<and> (\<forall>env t d. update_invite_use (redeem_faults env) (t_codeHash t) db = Inr (0, d)
           \<longrightarrow> redeem_commit env t db = (Reply 409 (ApiError INVITE_ALREADY_USED None), db))
    \<and> (racing_request L h inv0 db (e1, body1) \<and> racing_request L h inv0 db (e2, body2)
         \<and> filter (\<lambda>r. code_hash r = h) (invite_codes db) = [inv0]
         \<and> max_uses inv0 = 1 \<and> used_count inv0 = 0
         \<and> ss = [Received e1 body1, Received e2 body2] \<and> list_all is_replied ss'
        \<longrightarrow> (\<exists>a b. ss' = [a, b]
                 \<and> (is_success a \<and> is_already_used b \<or> is_already_used a \<and> is_success b))
            \<and> filter (\<lambda>r. code_hash r = h) (invite_codes db') = [inv0\<lparr>used_count := 1\<rparr>]
            \<and> length (clients db') = length (clients db) + 1)"
proof -
  from run_redeems_progress [OF run]
  have ledger: "list_all2 invite_progress (invite_codes db) (invite_codes db')"
    and counted: "\<exists>new. clients db' = clients db @ new
           \<and> int (length new) = total_uses db' - total_uses db
           \<and> successes ss' = successes ss + length new"
    by blast+
  have abort: "\<forall>env t d. update_invite_use (redeem_faults env) (t_codeHash t) db = Inr (0, d)
           \<longrightarrow> redeem_commit env t db = (Reply 409 (ApiError INVITE_ALREADY_USED None), db)"
    by (simp add: redeem_commit_def transaction_def redeem_tx_def)
  have raced: "(\<exists>a b. ss' = [a, b]
                 \<and> (is_success a \<and> is_already_used b \<or> is_already_used a \<and> is_success b))
            \<and> filter (\<lambda>r. code_hash r = h) (invite_codes db') = [inv0\<lparr>used_count := 1\<rparr>]
            \<and> length (clients db') = length (clients db) + 1"
    if race: "racing_request L h inv0 db (e1, body1) \<and> racing_request L h inv0 db (e2, body2)
         \<and> filter (\<lambda>r. code_hash r = h) (invite_codes db) = [inv0]
         \<and> max_uses inv0 = 1 \<and> used_count inv0 = 0
         \<and> ss = [Received e1 body1, Received e2 body2] \<and> list_all is_replied ss'"
  proof -
    from race have rq: "list_all (racing_request L h inv0 db) [(e1, body1), (e2, body2)]"
      and m: "max_uses inv0 = 1" and ss: "ss = [Received e1 body1, Received e2 body2]"
      and fin: "list_all is_replied ss'"
      by simp_all
    from race have "inv0\<lparr>used_count := 0\<rparr> = inv0" by simp
    with race have start: "race_inv h inv0 db [(e1, body1), (e2, body2)] db ss 0"
      by (simp add: race_inv_def session_ok_def successes_def is_success_def is_already_used_def)
    from race_run [OF rq m start run] obtain u where
      inv: "race_inv h inv0 db [(e1, body1), (e2, body2)] db' ss' u" ..
    then have u: "u = 0 \<or> u = 1"
      and rows: "filter (\<lambda>r. code_hash r = h) (invite_codes db') = [inv0\<lparr>used_count := u\<rparr>]"
      and ok: "list_all2 (session_ok h) [(e1, body1), (e2, body2)] ss'"
      and cnt: "successes ss' = nat u"
      and used: "list_ex is_already_used ss' \<longrightarrow> u = 1"
      by (simp_all add: race_inv_def)
    from ok obtain a b where ab: "ss' = [a, b]"
      and oka: "session_ok h (e1, body1) a" and okb: "session_ok h (e2, body2) b"
      by (auto simp: list_all2_Cons1)
    from fin ab have "is_replied a" "is_replied b" by simp_all
    with oka okb have fa: "is_success a \<or> is_already_used a"
      and fb: "is_success b \<or> is_already_used b"
      by (auto dest: session_ok_final)
    have u1: "u = 1"
    proof (rule ccontr)
      assume "u \<noteq> 1"
      with u have u0: "u = 0" by simp
      with cnt ab have "\<not> is_success a" by (auto simp: successes_def split: if_splits)
      with fa have "is_already_used a" by simp
      with used ab u0 show False by simp
    qed
    with cnt ab have one: "length (filter is_success [a, b]) = 1" by (simp add: successes_def)
    have pair: "is_success a \<and> is_already_used b \<or> is_already_used a \<and> is_success b"
      using one fa fb success_not_already_used [of a] success_not_already_used [of b]
      by (auto split: if_splits)
    from counted obtain new where
      "clients db' = clients db @ new" "successes ss' = successes ss + length new" by blast
    with cnt u1 ss have len: "length (clients db') = length (clients db) + 1"
      by (simp add: successes_def is_success_def)
    from ab pair rows u1 len show ?thesis by simp
  qed
  show ?thesis
    by (rule conjI [OF ledger conjI [OF counted conjI [OF abort impI [OF raced]]]])
qed

lemma sample_body_parsed:
  "RedeemBodySchema sample_lib sample_redeem_body
     = Some \<lparr>inviteCode = ''invite-valid'', installId = ''00000000-0000-0000-0000-000000000001'',
             modVersion = ''1.0.0''\<rparr>"
  by (simp add: RedeemBodySchema_def sample_redeem_body_def sample_lib_def)

lemma race_sample_run:
  "run_redeems sample_lib [0, 1, 1, 0] (race_db, race_sessions)
     = (race_db_after,
        [Replied (Reply 409 (ApiError INVITE_ALREADY_USED None)),
         Replied (Reply 200 (RedeemSuccess ''relay-client-0c'' ''relay-secret-0c0c'' ''v1''))])"
  by code_simp

lemma race_sample_requests:
  "racing_request sample_lib ''sha256:invite-valid'' sample_invite race_db
     (race_env ''0a'', sample_redeem_body)"
  "racing_request sample_lib ''sha256:invite-valid'' sample_invite race_db
     (race_env ''0c'', sample_redeem_body)"
  by code_simp+

lemma race_sample_row:
  "filter (\<lambda>r. code_hash r = ''sha256:invite-valid'') (invite_codes race_db) = [sample_invite]"
  "max_uses sample_invite = 1" "used_count sample_invite = 0"
  by code_simp+

theorem redeem_counts_uses_and_credentials_together_witness:
  "run_redeems sample_lib [0, 1, 1, 0] (race_db, race_sessions)
     = (race_db_after,
        [Replied (Reply 409 (ApiError INVITE_ALREADY_USED None)),
         Replied (Reply 200 (RedeemSuccess ''relay-client-0c'' ''relay-secret-0c0c'' ''v1''))])
   \<and> list_all2 invite_progress (invite_codes race_db) (invite_codes race_db_after)
   \<and> filter (\<lambda>r. code_hash r = ''sha256:invite-valid'') (invite_codes race_db_after)
       = [sample_invite\<lparr>used_count := 1\<rparr>]
   \<and> length (clients race_db_after) = length (clients race_db) + 1"
proof -
  have fin: "list_all is_replied
     [Replied (Reply 409 (ApiError INVITE_ALREADY_USED None)),
      Replied (Reply 200 (RedeemSuccess ''relay-client-0c'' ''relay-secret-0c0c'' ''v1''))]"
    by (simp add: is_replied_def)
  note T = redeem_counts_uses_and_credentials_together
         [OF race_sample_run, of "''sha256:invite-valid''" sample_invite
            "race_env ''0a''" sample_redeem_body "race_env ''0c''" sample_redeem_body]
  from T have p1: "list_all2 invite_progress (invite_codes race_db) (invite_codes race_db_after)"
    by (rule conjunct1)
  have hyps: "racing_request sample_lib ''sha256:invite-valid'' sample_invite race_db
        (race_env ''0a'', sample_redeem_body)
      \<and> racing_request sample_lib ''sha256:invite-valid'' sample_invite race_db
        (race_env ''0c'', sample_redeem_body)
      \<and> filter (\<lambda>r. code_hash r = ''sha256:invite-valid'') (invite_codes race_db) = [sample_invite]
      \<and> max_uses sample_invite = 1 \<and> used_count sample_invite = 0
      \<and> race_sessions = [Received (race_env ''0a'') sample_redeem_body,
                         Received (race_env ''0c'') sample_redeem_body]
      \<and> list_all is_replied
           [Replied (Reply 409 (ApiError INVITE_ALREADY_USED None)),
            Replied (Reply 200 (RedeemSuccess ''relay-client-0c'' ''relay-secret-0c0c'' ''v1''))]"
    using race_sample_requests race_sample_row fin by (simp add: race_sessions_def)
  from T have "filter (\<lambda>r. code_hash r = ''sha256:invite-valid'') (invite_codes race_db_after)
       = [sample_invite\<lparr>used_count := 1\<rparr>]
     \<and> length (clients race_db_after) = length (clients race_db) + 1"
    using hyps by blast
  with p1 race_sample_run show ?thesis by blast
qed

lemma RedeemBodySchema_None_iff:
  "RedeemBodySchema L body = None \<longleftrightarrow>
     \<not> (\<exists>kvs ic iid mv. body = Some (JObject kvs)
          \<and> map_of kvs ''inviteCode'' = Some (JString ic) \<and> ic \<noteq> []
          \<and> map_of kvs ''installId'' = Some (JString iid) \<and> uuid_ok L iid
          \<and> map_of kvs ''modVersion'' = Some (JString mv) \<and> mv \<noteq> [])"
  by (auto simp: RedeemBodySchema_def split: option.splits json.splits)

text \<open>
  Claim C10. The body fails validation exactly when it is not an object with a non-empty
  string \<open>inviteCode\<close>, a UUID string \<open>installId\<close> and a non-empty string \<open>modVersion\<close>.
  Then the reply is 400 \<open>INVITE_INVALID\<close> whatever the store holds and whether or not it
  can be read, and the store is unchanged; a well-formed request for an unknown code gets
  the very same reply.
\<close>

theorem malformed_redeem_body_is_invite_invalid:
  "(RedeemBodySchema L body = None \<longleftrightarrow>
     \<not> (\<exists>kvs ic iid mv. body = Some (JObject kvs)
          \<and> map_of kvs ''inviteCode'' = Some (JString ic) \<and> ic \<noteq> []
          \<and> map_of kvs ''installId'' = Some (JString iid) \<and> uuid_ok L iid
          \<and> map_of kvs ''modVersion'' = Some (JString mv) \<and> mv \<noteq> []))
   \<and> (RedeemBodySchema L body = None
        \<longrightarrow> redeem_handler L env body db = (Reply 400 (ApiError INVITE_INVALID None), db))
   \<and> (RedeemBodySchema L body' = Some b
        \<and> select_invite (redeem_faults env) (hashInviteCode L (inviteCode b)) db = Inr None
        \<longrightarrow> redeem_handler L env body' db = (Reply 400 (ApiError INVITE_INVALID None), db))"
proof (intro conjI)
  show "RedeemBodySchema L body = None \<longleftrightarrow>
     \<not> (\<exists>kvs ic iid mv. body = Some (JObject kvs)
          \<and> map_of kvs ''inviteCode'' = Some (JString ic) \<and> ic \<noteq> []
          \<and> map_of kvs ''installId'' = Some (JString iid) \<and> uuid_ok L iid
          \<and> map_of kvs ''modVersion'' = Some (JString mv) \<and> mv \<noteq> [])"
    by (rule RedeemBodySchema_None_iff)
  show "RedeemBodySchema L body = None
        \<longrightarrow> redeem_handler L env body db = (Reply 400 (ApiError INVITE_INVALID None), db)"
    by (simp add: redeem_handler_def redeem_check_def)
  show "RedeemBodySchema L body' = Some b
        \<and> select_invite (redeem_faults env) (hashInviteCode L (inviteCode b)) db = Inr None
        \<longrightarrow> redeem_handler L env body' db = (Reply 400 (ApiError INVITE_INVALID None), db)"
    by (simp add: redeem_handler_def redeem_check_def Let_def)
qed

theorem malformed_redeem_body_is_invite_invalid_witness:
  "RedeemBodySchema sample_lib malformed_redeem_body = None
   \<and> redeem_handler sample_lib (race_env ''0a'') malformed_redeem_body race_db
       = (Reply 400 (ApiError INVITE_INVALID None), race_db)
   \<and> redeem_handler sample_lib (race_env ''0a'') unknown_redeem_body race_db
       = (Reply 400 (ApiError INVITE_INVALID None), race_db)"
proof -
  have m: "RedeemBodySchema sample_lib malformed_redeem_body = None" by code_simp
  have u: "RedeemBodySchema sample_lib unknown_redeem_body
             = Some \<lparr>inviteCode = ''missing'',
                     installId = ''00000000-0000-0000-0000-000000000001'',
                     modVersion = ''1.0.0''\<rparr>"
    by code_simp
  have s: "select_invite (redeem_faults (race_env ''0a''))
             (hashInviteCode sample_lib
                (inviteCode \<lparr>inviteCode = ''missing'',
                     installId = ''00000000-0000-0000-0000-000000000001'',
                     modVersion = ''1.0.0''\<rparr>)) race_db = Inr None"
    by code_simp
  from malformed_redeem_body_is_invite_invalid
         [of sample_lib malformed_redeem_body "race_env ''0a''" race_db unknown_redeem_body
            "\<lparr>inviteCode = ''missing'', installId = ''00000000-0000-0000-0000-000000000001'',
              modVersion = ''1.0.0''\<rparr>"] m u s
  show ?thesis by blast
qed

text \<open>
  Claim C8. When the invite is found and its \<open>expires_at\<close> is a date at or before the time
  of the request, the reply is 410 \<open>INVITE_EXPIRED\<close> and the store is unchanged, whatever
  \<open>used_count\<close> and \<open>max_uses\<close> are.
\<close>

theorem expired_invite_is_reported_before_the_usage_check:
  assumes "RedeemBodySchema L body = Some b"
    and "select_invite (redeem_faults env) (hashInviteCode L (inviteCode b)) db = Inr (Some invite)"
    and "expires_at invite = Some s" and "s \<noteq> []"
    and "Date_parse L s = Some t" and "t \<le> redeem_now env"
  shows "redeem_handler L env body db = (Reply 410 (ApiError INVITE_EXPIRED None), db)"
  using assms
  by (simp add: redeem_handler_def redeem_check_def invite_expired_def Let_def)

theorem expired_invite_is_reported_before_the_usage_check_witness:
  "used_count (hd (invite_codes expired_db)) \<ge> max_uses (hd (invite_codes expired_db))
   \<and> redeem_handler sample_lib (race_env ''0a'') sample_redeem_body expired_db
       = (Reply 410 (ApiError INVITE_EXPIRED None), expired_db)"
proof -
  have s: "select_invite (redeem_faults (race_env ''0a''))
             (hashInviteCode sample_lib
                (inviteCode \<lparr>inviteCode = ''invite-valid'',
                     installId = ''00000000-0000-0000-0000-000000000001'',
                     modVersion = ''1.0.0''\<rparr>)) expired_db
           = Inr (Some (sample_invite\<lparr>used_count := 1,
                        expires_at := Some ''2000-01-01T00:00:00.000Z''\<rparr>))"
    by code_simp
  have e: "expires_at (sample_invite\<lparr>used_count := 1,
                        expires_at := Some ''2000-01-01T00:00:00.000Z''\<rparr>)
           = Some ''2000-01-01T00:00:00.000Z''" by simp
  have d: "Date_parse sample_lib ''2000-01-01T00:00:00.000Z'' = Some 946684800000" by code_simp
  have n: "(946684800000 :: int) \<le> redeem_now (race_env ''0a'')" by code_simp
  have c: "used_count (hd (invite_codes expired_db)) \<ge> max_uses (hd (invite_codes expired_db))"
    by code_simp
  from expired_invite_is_reported_before_the_usage_check [OF sample_body_parsed s e _ d n] c
  show ?thesis by simp
qed

section \<open>Properties of the upload pipeline\<close>



lemma sendError_ready:
  "audit_ready env db \<Longrightarrow>
     sendError env db (requestId_of env) (req_ip req) code ec cid
       = (Reply code (ApiError ec (Some (requestId_of env))),
          db\<lparr>upload_audit := upload_audit db @ [audit_row env req cid ''REJECTED'' (Some ec)]\<rparr>)"
  by (simp add: sendError_def writeAuditRow_def insert_audit_def audit_ready_def audit_row_def)


lemma sendError_reply:
  "sendError env db rid ip code ec cid = (r, db') \<Longrightarrow>
     (\<exists>e. r = Uncaught e \<and> db' = db) \<or> r = Reply code (ApiError ec (Some rid))"
  by (auto simp: sendError_def split: sum.splits)




lemma upload_forward_done:
  "forwarder_result env = Inr m \<Longrightarrow> audit_ready env db \<Longrightarrow>
     upload_forward cfg env req h p db
       = (Reply 200 (UploadSuccess (requestId_of env) (case m of None \<Rightarrow> [] | Some i \<Rightarrow> i)
                       (verifiedFileSha256 p)),
          db\<lparr>upload_audit := upload_audit db
                 @ [audit_row env req (Some (h_client_id h)) ''FORWARDED'' None]\<rparr>,
          [forward_call cfg env p])"
  by (simp add: upload_forward_def Let_def forward_call_def writeAuditRow_def insert_audit_def
      audit_ready_def audit_row_def)

lemma rejected_row:
  assumes "audit_ready env db"
    and "(r, d) = sendError env db (requestId_of env) (req_ip req) code ec cid"
  shows "r = Reply code (ApiError ec (Some (requestId_of env)))"
    and "upload_audit d = upload_audit db
           @ [audit_row env req cid (audit_status_of (ApiError ec (Some (requestId_of env))))
                (audit_error_of (ApiError ec (Some (requestId_of env))))]"
    and "clients d = clients db" and "nonces d = nonces db"
  using assms by (simp_all add: sendError_ready audit_status_of_def audit_error_of_def)



lemma handler_rejected_early:
  assumes "upload_pre L cfg env req db = Inl (sendError env db rid ip code ec cid)"
  shows "upload_handler L cfg env req db
           = (fst (sendError env db rid ip code ec cid),
              snd (sendError env db rid ip code ec cid), [])"
  unfolding upload_handler_def assms
  by (cases "sendError env db rid ip code ec cid") simp

lemma handler_rejected_late:
  assumes "upload_pre L cfg env req db = Inr (h, c)"
    and "upload_commit L cfg env req h c db = Inl (sendError env db rid ip code ec cid)"
  shows "upload_handler L cfg env req db
           = (fst (sendError env db rid ip code ec cid),
              snd (sendError env db rid ip code ec cid), [])"
  using assms
  by (cases "sendError env db rid ip code ec cid") (simp add: upload_handler_def)

lemma handler_forwarded:
  assumes "upload_pre L cfg env req db = Inr (h, c)"
    and "upload_commit L cfg env req h c db = Inr (p, d)"
  shows "upload_handler L cfg env req db = upload_forward cfg env req h p d"
  using assms by (simp add: upload_handler_def)









lemma upload_pre_passI:
  assumes "UploadHeadersSchema L (req_headers req) = Some h"
    and "isTimestampWithinSkew (int (nat_of_digits (h_timestamp h))) (clock_skew_check env div 1000)
         (maxClockSkewSeconds cfg)"
    and "fault_of (upload_faults env) SelectClient = None"
    and "find (\<lambda>r. client_id r = h_client_id h) (clients db) = Some c" and "active c = 1"
    and "fault_of (upload_faults env) SelectNonce = None"
    and "find (nonce_key (h_client_id h) (h_nonce h)) (nonces db) = None"
    and "req_isMultipart req"
  shows "upload_pre L cfg env req db = Inr (h, c)"
  using assms by (simp add: upload_pre_def Let_def select_client_def hasSeenNonce_def)








lemma list_all_replicate: "list_all P (replicate n x) \<longleftrightarrow> n = 0 \<or> P x"
  by (auto simp: list_all_iff)

lemma sample_chars:
  "is_lower_hex CHR ''a''" "is_lower_hex CHR ''c''" "is_lower_hex CHR ''f''"
  "is_hex_char CHR ''a''" "is_hex_char CHR ''c''" "is_hex_char CHR ''f''"
  "is_hex_char CHR ''A''" "\<not> is_lower_hex CHR ''A''" "to_lower_char CHR ''A'' = CHR ''a''"
  by code_simp+

lemma sample_strings:
  "is_digest lower_sig" "is_digest csv_hash" "is_digest wrong_hash"
  "hex64_regex lower_sig" "hex64_regex upper_sig" "hex64_regex csv_hash" "hex64_regex wrong_hash"
  "\<not> is_digest upper_sig" "toLowerCase upper_sig = lower_sig"
  "csv_hash \<noteq> wrong_hash" "wrong_hash \<noteq> csv_hash" "lower_sig \<noteq> wrong_hash"
  by (simp_all add: is_digest_def hex64_regex_def lower_sig_def upper_sig_def csv_hash_def
      wrong_hash_def list_all_replicate sample_chars toLowerCase_def
      replicate_eq_replicate)

lemma sample_lower:
  "toLowerCase lower_sig = lower_sig" "toLowerCase csv_hash = csv_hash"
  "toLowerCase wrong_hash = wrong_hash"
  using sample_strings(1-3) by (simp_all add: is_digest_def toLowerCase_lower_hex)

lemma upload_lib_fields:
  "uuid_ok upload_lib s = (length s = 36)"
  "JSON_parse upload_lib ''metadata'' = Some (sample_metadata_json csv_hash)"
  "JSON_parse upload_lib ''metadata-wrong-hash'' = Some (sample_metadata_json wrong_hash)"
  "Number_coerce upload_lib (JNumber n) = Some n"
  "hmac_sha256 upload_lib ''relay-secret-test'' m = lower_sig"
  "sha256_bytes upload_lib b = csv_hash"
  by (simp_all add: upload_lib_def)

lemma sample_headers_parsed:
  "hex64_regex sg \<Longrightarrow>
     UploadHeadersSchema upload_lib (sample_headers sg)
       = Some \<lparr>h_client_id = ''relay-client-test'', h_timestamp = ''1700000000'',
               h_nonce = ''8eb62752-e147-4f2b-95a8-62de00f99701'', h_signature = sg,
               h_signature_version = ''v1''\<rparr>"
  by (simp add: UploadHeadersSchema_def sample_headers_def upload_lib_fields digits_regex_def
      is_digit_def charCode_def)

lemma sample_metadata_parsed:
  "UploadMetadataSchema upload_lib (sample_metadata_json csv_hash) = Some sample_metadata"
  "UploadMetadataSchema upload_lib (sample_metadata_json wrong_hash)
     = Some (sample_metadata\<lparr>md_fileSha256 := wrong_hash\<rparr>)"
  by (simp_all add: UploadMetadataSchema_def sample_metadata_json_def sample_metadata_def
      z_literal_1_def z_string_min1_def z_sha256_def z_coerce_positive_int_def upload_lib_fields
      sample_strings sample_lower)

lemma sample_payload_parsed:
  "readMultipartPayload upload_lib (req_parts (sample_upload sg ''metadata'')) (maxUploadBytes sample_cfg)
     = Inr sample_parsed_upload"
  by (simp add: readMultipartPayload_def sample_upload_def sample_cfg_def sample_csv_def
      sample_metadata_parsed sample_parsed_upload_def sha256Hex_def Let_def upload_lib_fields
      sample_metadata_def)


lemma sample_cfg_fields:
  "maxClockSkewSeconds sample_cfg = 300" "nonceTtlSeconds sample_cfg = 600"
  "discordWebhookUrl sample_cfg = ''https://example.com/webhook''"
  by (simp_all add: sample_cfg_def)

lemma sample_timestamp: "int (nat_of_digits ''1700000000'') = 1700000000"
  by (simp add: nat_of_digits_def charCode_def)

lemma sample_pre_pass:
  assumes "hex64_regex sg"
    and flt: "fault_of flt SelectClient = None" "fault_of flt SelectNonce = None"
  shows "upload_pre upload_lib sample_cfg (sample_env uuid fr flt) (sample_upload sg m) upload_db
           = Inr (sample_parsed_headers sg, sample_client)"
proof (rule upload_pre_passI)
  show "UploadHeadersSchema upload_lib (req_headers (sample_upload sg m))
          = Some (sample_parsed_headers sg)"
    using assms by (simp add: sample_upload_def sample_headers_parsed sample_parsed_headers_def)
  show "isTimestampWithinSkew (int (nat_of_digits (h_timestamp (sample_parsed_headers sg))))
          (clock_skew_check (sample_env uuid fr flt) div 1000) (maxClockSkewSeconds sample_cfg)"
    by (simp add: sample_parsed_headers_def sample_timestamp sample_env_def sample_cfg_def
        isTimestampWithinSkew_def)
  show "fault_of (upload_faults (sample_env uuid fr flt)) SelectClient = None"
    "fault_of (upload_faults (sample_env uuid fr flt)) SelectNonce = None"
    using flt by (simp_all add: sample_env_def)
  show "find (\<lambda>r. client_id r = h_client_id (sample_parsed_headers sg)) (clients upload_db)
          = Some sample_client"
    by (simp add: upload_db_def sample_client_def sample_parsed_headers_def)
  show "active sample_client = 1" by (simp add: sample_client_def)
  show "find (nonce_key (h_client_id (sample_parsed_headers sg)) (h_nonce (sample_parsed_headers sg)))
          (nonces upload_db) = None"
    by (simp add: upload_db_def)
  show "req_isMultipart (sample_upload sg m)" by (simp add: sample_upload_def)
qed

lemma sample_signature_ok:
  assumes "toLowerCase (toLowerCase sg) = lower_sig"
  shows "verifySignature (hmac_sha256 upload_lib) (client_secret sample_client) canonical
           (toLowerCase sg) = Inr True"
proof -
  have "timingSafeEqualHex lower_sig (toLowerCase lower_sig) = Inr (lower_sig = lower_sig)"
    by (rule digest_compare) (simp_all add: sample_strings)
  then show ?thesis
    using assms
    by (simp add: verifySignature_def hmacSha256Hex_def sample_client_def upload_lib_fields
        sample_lower)
qed

lemma sample_commit_pass:
  assumes "toLowerCase (toLowerCase sg) = lower_sig"
    and flt: "fault_of flt InsertNonce = None" "fault_of flt DeleteExpiredNonces = None"
  shows "upload_commit upload_lib sample_cfg (sample_env uuid fr flt) (sample_upload sg ''metadata'')
           (sample_parsed_headers sg) sample_client upload_db
         = Inr (sample_parsed_upload, upload_db\<lparr>nonces := [sample_nonce_row]\<rparr>)"
  using flt
  by (simp add: upload_commit_def Let_def sample_payload_parsed sample_signature_ok [OF assms(1)]
        sample_env_def sample_cfg_fields persistNonce_def cleanupExpiredNonces_def
        upload_db_def sample_parsed_headers_def sample_nonce_row_def)

lemma sample_commit_busy:
  assumes "toLowerCase (toLowerCase sg) = lower_sig"
    and flt: "fault_of flt InsertNonce = Some e"
  shows "upload_commit upload_lib sample_cfg (sample_env uuid fr flt) (sample_upload sg ''metadata'')
           (sample_parsed_headers sg) sample_client upload_db
         = Inl (sendError (sample_env uuid fr flt) upload_db (requestId_of (sample_env uuid fr flt))
                  (req_ip (sample_upload sg ''metadata'')) 409 NONCE_REPLAY
                  (Some ''relay-client-test''))"
  using flt
  by (simp add: upload_commit_def Let_def sample_payload_parsed sample_signature_ok [OF assms(1)]
        persistNonce_def sample_parsed_headers_def)
     (simp add: sample_env_def)


lemma sample_audit_ready:
  "fault_of flt InsertAudit = None \<Longrightarrow> upload_audit db = []
     \<Longrightarrow> audit_ready (sample_env uuid fr flt) db"
  by (simp add: audit_ready_def sample_env_def)

lemma sample_audit_row_eq:
  "audit_row (sample_env uuid fr flt) (sample_upload sg m) cid st err
     = sample_audit_row (''req-'' @ uuid) cid st err"
  by (simp add: audit_row_def sample_audit_row_def sample_env_def sample_upload_def requestId_of_def)

lemma sample_request_id: "requestId_of (sample_env uuid fr flt) = ''req-'' @ uuid"
  by (simp add: requestId_of_def sample_env_def)

lemma sample_forward_call:
  "forward_call sample_cfg (sample_env uuid fr flt) sample_parsed_upload = sample_call (''req-'' @ uuid)"
  by (simp add: forward_call_def sample_call_def sample_cfg_fields sample_request_id
      sample_parsed_upload_def)

lemma sample_parsed_fields:
  "verifiedFileSha256 sample_parsed_upload = csv_hash"
  "h_client_id (sample_parsed_headers sg) = ''relay-client-test''"
  by (simp_all add: sample_parsed_upload_def sample_parsed_headers_def)

lemma sample_accept:
  assumes "hex64_regex sg" "toLowerCase (toLowerCase sg) = lower_sig"
  shows "upload_handler upload_lib sample_cfg (sample_env uuid (Inr (Some ''1234567890'')) [])
           (sample_upload sg ''metadata'') upload_db
         = (Reply 200 (UploadSuccess (''req-'' @ uuid) ''1234567890'' csv_hash),
            upload_db\<lparr>nonces := [sample_nonce_row],
                      upload_audit := [sample_audit_row (''req-'' @ uuid)
                                         (Some ''relay-client-test'') ''FORWARDED'' None]\<rparr>,
            [sample_call (''req-'' @ uuid)])"
proof -
  let ?env = "sample_env uuid (Inr (Some ''1234567890'')) []"
  have pre: "upload_pre upload_lib sample_cfg ?env (sample_upload sg ''metadata'') upload_db
               = Inr (sample_parsed_headers sg, sample_client)"
    by (rule sample_pre_pass) (simp_all add: assms fault_of_def)
  have com: "upload_commit upload_lib sample_cfg ?env (sample_upload sg ''metadata'')
               (sample_parsed_headers sg) sample_client upload_db
             = Inr (sample_parsed_upload, upload_db\<lparr>nonces := [sample_nonce_row]\<rparr>)"
    by (rule sample_commit_pass) (simp_all add: assms fault_of_def)
  have rd: "audit_ready ?env (upload_db\<lparr>nonces := [sample_nonce_row]\<rparr>)"
    by (rule sample_audit_ready) (simp_all add: fault_of_def upload_db_def)
  have fr: "forwarder_result ?env = Inr (Some ''1234567890'')" by (simp add: sample_env_def)
  show ?thesis
    unfolding handler_forwarded [OF pre com] upload_forward_done [OF fr rd]
    by (simp add: sample_audit_row_eq sample_request_id sample_forward_call
        sample_parsed_fields upload_db_def)
qed


lemma sample_rejected_at_commit:
  assumes pre: "upload_pre upload_lib sample_cfg (sample_env uuid fr flt) (sample_upload sg m) upload_db
               = Inr (sample_parsed_headers sg, sample_client)"
    and com: "upload_commit upload_lib sample_cfg (sample_env uuid fr flt) (sample_upload sg m)
           (sample_parsed_headers sg) sample_client upload_db
         = Inl (sendError (sample_env uuid fr flt) upload_db (requestId_of (sample_env uuid fr flt))
                  (req_ip (sample_upload sg m)) code ec (Some ''relay-client-test''))"
    and flt: "fault_of flt InsertAudit = None"
  shows "upload_handler upload_lib sample_cfg (sample_env uuid fr flt) (sample_upload sg m) upload_db
         = (Reply code (ApiError ec (Some (''req-'' @ uuid))),
            upload_db\<lparr>upload_audit := [sample_audit_row (''req-'' @ uuid)
                                         (Some ''relay-client-test'') ''REJECTED'' (Some ec)]\<rparr>,
            [])"
proof -
  have rd: "audit_ready (sample_env uuid fr flt) upload_db"
    by (rule sample_audit_ready) (simp_all add: flt upload_db_def)
  show ?thesis
    unfolding handler_rejected_late [OF pre com] sendError_ready [OF rd]
    by (simp add: sample_audit_row_eq sample_request_id upload_db_def)
qed


lemma sample_busy:
  "upload_handler upload_lib sample_cfg
       (sample_env uuid fr [(InsertNonce, Exn (Some ''SQLITE_BUSY'') ''database is locked'')])
       (sample_upload lower_sig ''metadata'') upload_db
     = (Reply 409 (ApiError NONCE_REPLAY (Some (''req-'' @ uuid))),
        upload_db\<lparr>upload_audit := [sample_audit_row (''req-'' @ uuid)
                                     (Some ''relay-client-test'') ''REJECTED''
                                     (Some NONCE_REPLAY)]\<rparr>,
        [])"
  by (rule sample_rejected_at_commit [OF sample_pre_pass sample_commit_busy])
     (simp_all add: sample_strings sample_lower fault_of_def)

lemma UploadHeadersSchema_None_iff:
  "UploadHeadersSchema L hs = None \<longleftrightarrow>
     \<not> (\<exists>cid ts n sg.
           hs ''x-scamscreener-client-id'' = Some cid \<and> cid \<noteq> []
         \<and> hs ''x-scamscreener-timestamp'' = Some ts \<and> ts \<noteq> [] \<and> list_all is_digit ts
         \<and> hs ''x-scamscreener-nonce'' = Some n \<and> uuid_ok L n
         \<and> hs ''x-scamscreener-signature'' = Some sg \<and> length sg = 64 \<and> list_all is_hex_char sg
         \<and> hs ''x-scamscreener-signature-version'' = Some ''v1'')"
  by (auto simp: UploadHeadersSchema_def digits_regex_def hex64_regex_def split: option.splits)

lemma bad_headers_rejected:
  assumes "UploadHeadersSchema L (req_headers req) = None" and rd: "audit_ready env db"
  shows "upload_handler L cfg env req db
           = (Reply 401 (ApiError AUTH_FAILED (Some (requestId_of env))),
              db\<lparr>upload_audit := upload_audit db
                    @ [audit_row env req None ''REJECTED'' (Some AUTH_FAILED)]\<rparr>, [])"
proof -
  from assms(1) have "upload_pre L cfg env req db
      = Inl (sendError env db (requestId_of env) (req_ip req) 401 AUTH_FAILED None)"
    by (simp add: upload_pre_def Let_def)
  from handler_rejected_early [OF this] show ?thesis
    unfolding sendError_ready [OF rd] by simp
qed

text \<open>
  Claim C6, as amended. Header validation fails exactly when one of five headers is
  missing or malformed: a non-empty client id, a timestamp of one or more decimal
  digits, a nonce that is a UUID, a signature of exactly 64 hex digits of either case,
  and the signature version \<open>v1\<close>. A request that fails it is answered 401
  \<open>AUTH_FAILED\<close>, with an audit row without client id.
\<close>

theorem header_validation_rejects_exactly_malformed_headers:
  "(UploadHeadersSchema L hs = None \<longleftrightarrow>
     \<not> (\<exists>cid ts n sg.
           hs ''x-scamscreener-client-id'' = Some cid \<and> cid \<noteq> []
         \<and> hs ''x-scamscreener-timestamp'' = Some ts \<and> ts \<noteq> [] \<and> list_all is_digit ts
         \<and> hs ''x-scamscreener-nonce'' = Some n \<and> uuid_ok L n
         \<and> hs ''x-scamscreener-signature'' = Some sg \<and> length sg = 64 \<and> list_all is_hex_char sg
         \<and> hs ''x-scamscreener-signature-version'' = Some ''v1''))
   \<and> (UploadHeadersSchema L (req_headers req) = None \<and> audit_ready env db
        \<longrightarrow> upload_handler L cfg env req db
            = (Reply 401 (ApiError AUTH_FAILED (Some (requestId_of env))),
               db\<lparr>upload_audit := upload_audit db
                     @ [audit_row env req None ''REJECTED'' (Some AUTH_FAILED)]\<rparr>, []))"
  using UploadHeadersSchema_None_iff [of L hs] bad_headers_rejected [of L req env db cfg]
  by blast

lemma short_signature_rejected:
  "UploadHeadersSchema upload_lib (req_headers (sample_upload ''abc'' ''metadata'')) = None"
  by (simp add: UploadHeadersSchema_def sample_upload_def sample_headers_def hex64_regex_def)

theorem header_validation_rejects_exactly_malformed_headers_witness:
  "UploadHeadersSchema upload_lib (req_headers (sample_upload ''abc'' ''metadata'')) = None
   \<and> upload_handler upload_lib sample_cfg (sample_env ''1'' (Inr None) [])
        (sample_upload ''abc'' ''metadata'') upload_db
      = (Reply 401 (ApiError AUTH_FAILED (Some ''req-1'')),
         upload_db\<lparr>upload_audit := [sample_audit_row ''req-1'' None ''REJECTED'' (Some AUTH_FAILED)]\<rparr>,
         [])"
proof -
  have rd: "audit_ready (sample_env ''1'' (Inr None) []) upload_db"
    by (rule sample_audit_ready) (simp_all add: fault_of_def upload_db_def)
  from header_validation_rejects_exactly_malformed_headers
         [of upload_lib "req_headers (sample_upload ''abc'' ''metadata'')"
             "sample_upload ''abc'' ''metadata''" "sample_env ''1'' (Inr None) []" upload_db sample_cfg]
    short_signature_rejected rd
  have "upload_handler upload_lib sample_cfg (sample_env ''1'' (Inr None) [])
        (sample_upload ''abc'' ''metadata'') upload_db
      = (Reply 401 (ApiError AUTH_FAILED (Some (requestId_of (sample_env ''1'' (Inr None) [])))),
         upload_db\<lparr>upload_audit := upload_audit upload_db
            @ [audit_row (sample_env ''1'' (Inr None) []) (sample_upload ''abc'' ''metadata'') None
                 ''REJECTED'' (Some AUTH_FAILED)]\<rparr>, [])"
    by blast
  then show ?thesis
    using short_signature_rejected
    by (simp add: sample_audit_row_eq sample_request_id upload_db_def)
qed

text \<open>
  Against claim C6 as stated (a signature that is not 64 lowercase hex digits does not
  pass): a signature of 64 uppercase digits passes header validation, and the upload
  that carries it is forwarded.
\<close>

theorem uppercase_signature_passes_header_validation:
  "\<not> is_digest upper_sig
   \<and> UploadHeadersSchema upload_lib (req_headers (sample_upload upper_sig ''metadata''))
       = Some (sample_parsed_headers upper_sig)
   \<and> upload_handler upload_lib sample_cfg (sample_env ''1'' (Inr (Some ''1234567890'')) [])
        (sample_upload upper_sig ''metadata'') upload_db
      = (Reply 200 (UploadSuccess ''req-1'' ''1234567890'' csv_hash),
         upload_db\<lparr>nonces := [sample_nonce_row],
                   upload_audit := [sample_audit_row ''req-1'' (Some ''relay-client-test'')
                                      ''FORWARDED'' None]\<rparr>,
         [sample_call ''req-1''])"
proof -
  have "UploadHeadersSchema upload_lib (req_headers (sample_upload upper_sig ''metadata''))
       = Some (sample_parsed_headers upper_sig)"
    by (simp add: sample_upload_def sample_headers_parsed sample_strings sample_parsed_headers_def)
  moreover have "upload_handler upload_lib sample_cfg (sample_env ''1'' (Inr (Some ''1234567890'')) [])
        (sample_upload upper_sig ''metadata'') upload_db
      = (Reply 200 (UploadSuccess (''req-'' @ ''1'') ''1234567890'' csv_hash),
         upload_db\<lparr>nonces := [sample_nonce_row],
                   upload_audit := [sample_audit_row (''req-'' @ ''1'') (Some ''relay-client-test'')
                                      ''FORWARDED'' None]\<rparr>,
         [sample_call (''req-'' @ ''1'')])"
    by (rule sample_accept) (simp_all add: sample_strings sample_lower)
  ultimately show ?thesis by (simp add: sample_strings)
qed



text \<open>
  Claim C2, at the input where the handler departs from it. The nonce has never been
  seen and the insert of its row fails because the store is locked, which has nothing to
  do with a duplicate key; the handler answers 409 \<open>NONCE_REPLAY\<close> all the same, where
  the claim asks for the failure to escape as a failed request.
\<close>

theorem storage_fault_on_nonce_insert_is_answered_as_replay:
  "\<not> list_ex (nonce_key ''relay-client-test'' ''8eb62752-e147-4f2b-95a8-62de00f99701'')
        (nonces upload_db)
   \<and> upload_handler upload_lib sample_cfg
       (sample_env ''1'' (Inr (Some ''1234567890''))
          [(InsertNonce, Exn (Some ''SQLITE_BUSY'') ''database is locked'')])
       (sample_upload lower_sig ''metadata'') upload_db
     = (Reply 409 (ApiError NONCE_REPLAY (Some ''req-1'')),
        upload_db\<lparr>upload_audit := [sample_audit_row ''req-1'' (Some ''relay-client-test'')
                                       ''REJECTED'' (Some NONCE_REPLAY)]\<rparr>,
        [])"
  using sample_busy [of "''1''" "Inr (Some ''1234567890'')"]
  by (simp add: upload_db_def)











end
